theory Spec2Isabelle
  imports Main "HOL-Library.Char_ord" "HOL-Library.List_Lexorder"
begin

section \<open>Python values and errors\<close>

text \<open>
  The driver \<^verbatim>\<open>coldfusion/driver_commands.py\<close> is Python 2. Every exception it can raise is a
  constructor of \<open>error\<close>; a function that may raise returns \<open>error + 'a\<close> with \<open>Inl\<close> the
  exception. Python integers are \<open>int\<close>, strings are \<open>string\<close> (the device's texts are taken as
  ASCII), \<^verbatim>\<open>None\<close> is \<open>None\<close> of an option type.
\<close>

datatype json =
    JNull
  | JBool bool
  | JNum int
  | JStr string
  | JArr "json list"
  | JObj "(string \<times> json) list"

datatype error =
    KeyError string
  | IndexError
  | ValueError
  | AttributeError
  | TypeError
  | OverflowError
  | HTTPError nat
  | ColdFusionException json

section \<open>String primitives\<close>

definition digit_char :: "nat \<Rightarrow> char" where
  "digit_char d = ''0123456789'' ! d"

definition is_digit :: "char \<Rightarrow> bool" where
  "is_digit c = (c \<in> set ''0123456789'')"

definition digit_val :: "char \<Rightarrow> nat" where
  "digit_val c = length (takeWhile (\<lambda>d. d \<noteq> c) ''0123456789'')"

text \<open>\<^verbatim>\<open>str(n)\<close> and \<^verbatim>\<open>"{0}".format(n)\<close> for an integer: decimal digits, a minus sign first.\<close>

fun str_nat :: "nat \<Rightarrow> string" where
  "str_nat n = (if n < 10 then [digit_char n] else str_nat (n div 10) @ [digit_char (n mod 10)])"

declare str_nat.simps [simp del]

definition py_str :: "int \<Rightarrow> string" where
  "py_str i = (if i < 0 then CHR ''-'' # str_nat (nat (- i)) else str_nat (nat i))"

text \<open>
  \<^verbatim>\<open>"{0:0w}".format(i)\<close>: the digits padded with zeros to width \<open>w\<close>; the padding is
  sign-aware, so the minus sign counts in the width and stays in front.
\<close>

definition zfill :: "nat \<Rightarrow> string \<Rightarrow> string" where
  "zfill w s = replicate (w - length s) (CHR ''0'') @ s"

definition format0 :: "nat \<Rightarrow> int \<Rightarrow> string" where
  "format0 w i =
     (if i < 0 then CHR ''-'' # zfill (w - 1) (str_nat (nat (- i)))
      else zfill w (str_nat (nat i)))"

text \<open>
  \<^verbatim>\<open>s.split(c)\<close> for a one-character separator: always at least one part, so the last
  case below never arises.
\<close>

fun py_split :: "char \<Rightarrow> string \<Rightarrow> string list" where
  "py_split c [] = [[]]"
| "py_split c (x # xs) =
     (if x = c then [] # py_split c xs
      else (case py_split c xs of p # ps \<Rightarrow> (x # p) # ps | [] \<Rightarrow> [[x]]))"

text \<open>
  \<^verbatim>\<open>int(s)\<close> in base 10: surrounding whitespace is dropped, one sign is allowed, and what is
  left must be one or more decimal digits; anything else raises \<^verbatim>\<open>ValueError\<close>.
\<close>

definition is_space :: "char \<Rightarrow> bool" where
  "is_space c = (c \<in> set [CHR '' '', CHR 0x09, CHR 0x0A, CHR 0x0B, CHR 0x0C, CHR 0x0D])"

definition strip :: "string \<Rightarrow> string" where
  "strip s = rev (dropWhile is_space (rev (dropWhile is_space s)))"

definition digits_val :: "string \<Rightarrow> nat" where
  "digits_val ds = foldl (\<lambda>a c. 10 * a + digit_val c) 0 ds"

definition py_int_digits :: "bool \<Rightarrow> string \<Rightarrow> error + int" where
  "py_int_digits neg ds =
     (if ds \<noteq> [] \<and> list_all is_digit ds
      then Inr (if neg then - int (digits_val ds) else int (digits_val ds))
      else Inl ValueError)"

definition py_int :: "string \<Rightarrow> error + int" where
  "py_int s =
     (case strip s of
        [] \<Rightarrow> Inl ValueError
      | c # r \<Rightarrow>
          if c = CHR ''-'' then py_int_digits True r
          else if c = CHR ''+'' then py_int_digits False r
          else py_int_digits False (c # r))"

section \<open>Address codec\<close>

text \<open>
  \<^verbatim>\<open>_qport(port, lane=None)\<close>: the test \<^verbatim>\<open>lane and lane>=1\<close> is false for \<^verbatim>\<open>None\<close>, for 0 (both
  falsy) and for every negative lane.
\<close>

definition qport :: "int \<Rightarrow> int option \<Rightarrow> string" where
  "qport port lane =
     (case lane of
        None \<Rightarrow> format0 2 port
      | Some l \<Rightarrow>
          if l \<noteq> 0 \<and> l \<ge> 1 then format0 2 port @ ''_'' @ py_str l
          else format0 2 port)"

text \<open>
  \<^verbatim>\<open>_parse_lport(str)\<close>: the unpacking \<^verbatim>\<open>lc, port_lane = str.split(".")\<close> raises
  \<^verbatim>\<open>ValueError\<close> unless there are exactly two parts; the three \<^verbatim>\<open>int\<close> conversions run
  in the order linecard, port, lane.
\<close>

definition parse_lport :: "string \<Rightarrow> error + (int \<times> int \<times> int)" where
  "parse_lport s =
     (case py_split (CHR ''.'') s of
        [lc, port_lane] \<Rightarrow>
          (let parts = py_split (CHR '':'') port_lane;
               port = parts ! 0;
               lane = (if length parts = 2 then parts ! 1 else ''-1'')
           in case py_int lc of
                Inl e \<Rightarrow> Inl e
              | Inr a \<Rightarrow>
                  (case py_int port of
                     Inl e \<Rightarrow> Inl e
                   | Inr b \<Rightarrow>
                       (case py_int lane of
                          Inl e \<Rightarrow> Inl e
                        | Inr c \<Rightarrow> Inr (a, b, c))))
      | _ \<Rightarrow> Inl ValueError)"

text \<open>
  The egress token as the device writes it, \<^verbatim>\<open><linecard>.<port>[:<lane>]\<close> in decimal digits:
  the well-formed inputs of \<open>parse_lport\<close>.
\<close>

definition egress_token :: "nat \<Rightarrow> nat \<Rightarrow> nat option \<Rightarrow> string" where
  "egress_token lc p lane =
     str_nat lc @ ''.'' @ str_nat p @ (case lane of None \<Rightarrow> [] | Some l \<Rightarrow> '':'' @ str_nat l)"

section \<open>Dictionaries and loops\<close>

text \<open>
  A Python dict is an association list without repeated keys: \<open>map_of\<close> reads it,
  \<open>dict_set\<close> is \<^verbatim>\<open>d[k] = v\<close> (replace in place, or append), and \<open>dict_get\<close> is \<^verbatim>\<open>d[k]\<close>,
  which raises \<^verbatim>\<open>KeyError\<close> on a missing key.
\<close>

fun dict_set :: "('k \<times> 'v) list \<Rightarrow> 'k \<Rightarrow> 'v \<Rightarrow> ('k \<times> 'v) list" where
  "dict_set [] k v = [(k, v)]"
| "dict_set ((k', v') # d) k v =
     (if k' = k then (k, v) # d else (k', v') # dict_set d k v)"

definition dict_get :: "(string \<times> 'v) list \<Rightarrow> string \<Rightarrow> error + 'v" where
  "dict_get d k = (case map_of d k of None \<Rightarrow> Inl (KeyError k) | Some v \<Rightarrow> Inr v)"

text \<open>
  A \<^verbatim>\<open>for\<close> loop whose body may raise. \<open>efold\<close> threads a state through the iterations;
  \<open>econcat_map\<close> is for a body that only emits events (here: calls of \<^verbatim>\<open>add_mapping\<close>),
  collected in the order of the calls. Both stop at the first exception.
\<close>

fun efold :: "('a \<Rightarrow> 's \<Rightarrow> 'e + 's) \<Rightarrow> 'a list \<Rightarrow> 's \<Rightarrow> 'e + 's" where
  "efold f [] s = Inr s"
| "efold f (x # xs) s = (case f x s of Inl e \<Rightarrow> Inl e | Inr s' \<Rightarrow> efold f xs s')"

fun econcat_map :: "('a \<Rightarrow> 'e + 'b list) \<Rightarrow> 'a list \<Rightarrow> 'e + 'b list" where
  "econcat_map f [] = Inr []"
| "econcat_map f (x # xs) =
     (case f x of
        Inl e \<Rightarrow> Inl e
      | Inr ys \<Rightarrow> (case econcat_map f xs of Inl e \<Rightarrow> Inl e | Inr zs \<Rightarrow> Inr (ys @ zs)))"

section \<open>Discovery: \<^verbatim>\<open>get_resource_description\<close>\<close>

text \<open>
  The device's answers are taken as decoded and shaped as the driver reads them:
  \<^verbatim>\<open>GET /chassis/\<close> gives \<^verbatim>\<open>Serial\<close> and the slot list \<^verbatim>\<open>Linecards\<close> (a slot is \<^verbatim>\<open>null\<close> or an
  object), \<^verbatim>\<open>GET /chassis/linecards/{lc}/ports\<close> gives the \<^verbatim>\<open>Type\<close> and \<^verbatim>\<open>Breakout\<close> of each port,
  and \<^verbatim>\<open>POST /chassis/do/show-flow\<close> with the body \<^verbatim>\<open>Ports\<close> gives, per port, the list \<^verbatim>\<open>Egress\<close>
  of arrays of tokens or \<^verbatim>\<open>null\<close>. A request that fails is an error value.
\<close>

record port_json =
  ptype :: string
  breakout :: bool

type_synonym egress = "string option list list"

record chassis_json =
  Serial :: string
  Linecards :: "json list"

record client =
  chassis_get_root :: "error + chassis_json"
  chassis_get_ports :: "int \<Rightarrow> error + port_json list"
  chassis_post_show_flow :: "string list \<Rightarrow> error + egress list"

text \<open>
  The resource tree. \<^verbatim>\<open>Blade\<close> and \<^verbatim>\<open>Port\<close> belong to the CloudShell library; the model keeps
  what the driver gives their constructors, the parent given to \<^verbatim>\<open>set_parent_resource\<close>, and
  every call \<^verbatim>\<open>mapped_to.add_mapping(port_obj)\<close> as the pair \<open>(mapped_to, port_obj)\<close>. A port
  object is named by its linecard number and its key in \<^verbatim>\<open>_blades\<close>.
\<close>

record port =
  port_id :: string
  port_model :: string
  port_serial :: string
  port_parent :: string

record blade =
  blade_id :: string
  blade_model :: string
  blade_serial :: string

type_synonym port_ref = "int \<times> string"

type_synonym mapping = "port_ref \<times> port_ref"

type_synonym blades_dict = "(int \<times> (string \<times> port) list) list"

record chassis =
  chassis_id :: string
  chassis_address :: string
  chassis_model :: string
  chassis_serial :: string
  chassis_blades :: "blade list"
  chassis_ports :: "port list"
  chassis_mappings :: "mapping list"

text \<open>
  An exception leaves discovery together with what the \<^verbatim>\<open>except\<close> handler of the non-breakout
  path logged before re-raising: the destination linecard and the sorted keys of its dict.
\<close>

type_synonym failure = "error \<times> (int \<times> string list) option"

record topology =
  blade_objs :: "blade list"
  port_objs :: "port list"
  blades :: blades_dict

definition make_port :: "string \<Rightarrow> string \<Rightarrow> string \<Rightarrow> port" where
  "make_port pid serial parent =
     \<lparr>port_id = pid, port_model = ''Generic L1 Port'', port_serial = serial,
      port_parent = parent\<rparr>"

text \<open>The body of the first loop over the ports of linecard index \<open>lc\<close> (lines 176 to 191).\<close>

definition port_entries :: "nat \<Rightarrow> nat \<Rightarrow> port_json \<Rightarrow> (string \<times> port) list" where
  "port_entries lc port pj =
     (if breakout pj \<and> ptype pj = ''OPort_CF1''
      then map (\<lambda>lane.
                  (qport (int port + 1) (Some (int lane + 1)),
                   make_port (qport (int port + 1) (Some (int lane + 1)))
                     (format0 2 (int lc + 1) @ ''.'' @ format0 1 (int port + 1) @ ''.''
                        @ py_str (int lane + 1))
                     (py_str (int lc + 1))))
             [0..<4]
      else [(qport (int port + 1) None,
             make_port (qport (int port + 1) None)
               (format0 2 (int lc + 1) @ ''.'' @ format0 1 (int port + 1) @ ''.1'')
               (py_str (int lc + 1)))])"

definition linecard_entries :: "nat \<Rightarrow> port_json list \<Rightarrow> (string \<times> port) list" where
  "linecard_entries lc ports_json =
     concat (map (\<lambda>port. port_entries lc port (ports_json ! port)) [0..<length ports_json])"

text \<open>The stores \<^verbatim>\<open>_blades[lc+1][port_id] = port_obj\<close> of one linecard, into the empty dict.\<close>

definition build_dict :: "(string \<times> port) list \<Rightarrow> (string \<times> port) list" where
  "build_dict entries = foldl (\<lambda>d (k, v). dict_set d k v) [] entries"

definition make_blade :: "string \<Rightarrow> string \<Rightarrow> string \<Rightarrow> blade" where
  "make_blade rid model serial = \<lparr>blade_id = rid, blade_model = model, blade_serial = serial\<rparr>"

text \<open>
  The \<^verbatim>\<open>Blade\<close> of slot index \<open>lc\<close> (lines 168 to 171); its serial is \<^verbatim>\<open>"L".format(lc+1)\<close>,
  which is \<^verbatim>\<open>"L"\<close>.
\<close>

definition slot_blade :: "nat \<Rightarrow> blade" where
  "slot_blade lc = make_blade (py_str (int lc + 1)) ''Generic L1 Module'' ''L''"

text \<open>
  One iteration of the loop over the slots (lines 165 to 191). The dict \<^verbatim>\<open>_blades[lc+1]\<close> is
  filled in place by the source; the model fills it and stores it once, after the ports
  loop.
\<close>

definition discover_linecard ::
  "client \<Rightarrow> json list \<Rightarrow> nat \<Rightarrow> topology \<Rightarrow> failure + topology" where
  "discover_linecard c linecards_json lc T =
     (if linecards_json ! lc \<noteq> JNull then
        (case chassis_get_ports c (int lc) of
           Inl e \<Rightarrow> Inl (e, None)
         | Inr ports_json \<Rightarrow>
             Inr (T\<lparr>blade_objs := blade_objs T @ [slot_blade lc],
                    port_objs := port_objs T @ map snd (linecard_entries lc ports_json),
                    blades := dict_set (blades T) (int lc + 1)
                                (build_dict (linecard_entries lc ports_json))\<rparr>))
      else Inr T)"

definition discover_blades :: "client \<Rightarrow> json list \<Rightarrow> failure + topology" where
  "discover_blades c linecards_json =
     efold (discover_linecard c linecards_json) [0..<length linecards_json]
       \<lparr>blade_objs = [], port_objs = [], blades = []\<rparr>"

text \<open>
  Breakout port, one lane and one egress entry (lines 210 to 221). With an empty entry the
  index is \<open>-1\<close> and the read raises \<^verbatim>\<open>IndexError\<close>. \<^verbatim>\<open>_blades[eport_lc]\<close> is read only after
  \<^verbatim>\<open>has_key\<close>; the read of the port key is unguarded and not inside any \<^verbatim>\<open>try\<close>.
\<close>

definition breakout_egress ::
  "blades_dict \<Rightarrow> port_ref \<Rightarrow> nat \<Rightarrow> string option list \<Rightarrow> failure + mapping list" where
  "breakout_egress bds port_obj lane egress_port =
     (if egress_port = [] then Inl (IndexError, None)
      else
        (let index = min lane (length egress_port - 1) in
         case egress_port ! index of
           None \<Rightarrow> Inr []
         | Some tok \<Rightarrow>
             if length tok > 0 then
               (case parse_lport tok of
                  Inl e \<Rightarrow> Inl (e, None)
                | Inr (eport_lc, eport_port, eport_lane0) \<Rightarrow>
                    (let eport_lane =
                           (if length egress_port = 1 then int lane + 1 else eport_lane0)
                     in case map_of bds eport_lc of
                          None \<Rightarrow> Inr []
                        | Some bd \<Rightarrow>
                            if eport_lane = int lane + 1 then
                              (case dict_get bd (qport eport_port (Some eport_lane)) of
                                 Inl e \<Rightarrow> Inl (e, None)
                               | Inr mapped_to \<Rightarrow>
                                   Inr [((eport_lc, qport eport_port (Some eport_lane)),
                                         port_obj)])
                            else Inr []))
             else Inr []))"

text \<open>
  Non-breakout port, one egress entry (lines 226 to 237): slot 0 is parsed without a test
  for \<^verbatim>\<open>null\<close> (\<^verbatim>\<open>None.split\<close> raises \<^verbatim>\<open>AttributeError\<close>), and the parsed lane goes to
  \<^verbatim>\<open>_qport\<close>. The \<^verbatim>\<open>except\<close> handler logs the linecard and its sorted keys and re-raises.
\<close>

definition nonbreakout_egress ::
  "blades_dict \<Rightarrow> port_ref \<Rightarrow> string option list \<Rightarrow> failure + mapping list" where
  "nonbreakout_egress bds port_obj egress_port =
     (case egress_port of
        [] \<Rightarrow> Inl (IndexError, None)
      | None # _ \<Rightarrow> Inl (AttributeError, None)
      | Some tok # _ \<Rightarrow>
          (case parse_lport tok of
             Inl e \<Rightarrow> Inl (e, None)
           | Inr (eport_lc, eport_port, eport_lane) \<Rightarrow>
               (case map_of bds eport_lc of
                  None \<Rightarrow> Inr []
                | Some bd \<Rightarrow>
                    (case dict_get bd (qport eport_port (Some eport_lane)) of
                       Inl e \<Rightarrow> Inl (e, Some (eport_lc, sort (map fst bd)))
                     | Inr mapped_to \<Rightarrow>
                         Inr [((eport_lc, qport eport_port (Some eport_lane)), port_obj)]))))"

text \<open>One port of the second pass (lines 202 to 237); \<open>blade\<close> is \<^verbatim>\<open>_blades[lc]\<close>.\<close>

definition port_mappings ::
  "blades_dict \<Rightarrow> int \<Rightarrow> (string \<times> port) list \<Rightarrow> port_json list \<Rightarrow> egress list \<Rightarrow> nat
     \<Rightarrow> failure + mapping list" where
  "port_mappings bds lc blade ports_json flows port =
     (if port < length flows then
        (let egress = flows ! port; pj = ports_json ! port in
         if breakout pj \<and> ptype pj = ''OPort_CF1'' then
           econcat_map
             (\<lambda>lane.
                case dict_get blade (qport (int port + 1) (Some (int lane + 1))) of
                  Inl e \<Rightarrow> Inl (e, None)
                | Inr port_obj \<Rightarrow>
                    econcat_map
                      (breakout_egress bds (lc, qport (int port + 1) (Some (int lane + 1))) lane)
                      egress)
             [0..<4]
         else
           (case dict_get blade (qport (int port + 1) None) of
              Inl e \<Rightarrow> Inl (e, None)
            | Inr port_obj \<Rightarrow>
                econcat_map (nonbreakout_egress bds (lc, qport (int port + 1) None)) egress))
      else Inl (IndexError, None))"

text \<open>One linecard of the second pass (lines 195 to 201).\<close>

definition linecard_mappings ::
  "client \<Rightarrow> blades_dict \<Rightarrow> int \<times> (string \<times> port) list \<Rightarrow> failure + mapping list" where
  "linecard_mappings c bds item =
     (case item of
        (lc, blade) \<Rightarrow>
          (case chassis_get_ports c (lc - 1) of
             Inl e \<Rightarrow> Inl (e, None)
           | Inr ports_json \<Rightarrow>
               (let num_ports = length ports_json;
                    ports = map (\<lambda>port. py_str lc @ ''.'' @ py_str (int port))
                              [1..<num_ports + 1]
                in case chassis_post_show_flow c ports of
                     Inl e \<Rightarrow> Inl (e, None)
                   | Inr flows \<Rightarrow>
                       econcat_map (port_mappings bds lc blade ports_json flows)
                         [0..<num_ports])))"

text \<open>
  The second pass walks \<^verbatim>\<open>_blades.items()\<close>. A Python 2 dict yields its items in the order of
  the slots of its hash table, not in the order of insertion: the keys 2 and 9 in a table of
  8 slots come out as 9, 2. Which slot a key sits in is the interpreter's business, so the
  model takes it as the parameter \<open>slot_of\<close> and walks the items by ascending slot (keys in
  one slot, which a real table never has, keep their order).
\<close>

definition dict_items :: "(int \<Rightarrow> nat) \<Rightarrow> (int \<times> 'v) list \<Rightarrow> (int \<times> 'v) list" where
  "dict_items slot_of d = sort_key (\<lambda>item. slot_of (fst item)) d"

definition configure_mappings ::
  "(int \<Rightarrow> nat) \<Rightarrow> client \<Rightarrow> blades_dict \<Rightarrow> failure + mapping list" where
  "configure_mappings slot_of c bds =
     econcat_map (linecard_mappings c bds) (dict_items slot_of bds)"

definition get_resource_description ::
  "(int \<Rightarrow> nat) \<Rightarrow> client \<Rightarrow> string \<Rightarrow> failure + chassis" where
  "get_resource_description slot_of c address =
     (case chassis_get_root c of
        Inl e \<Rightarrow> Inl (e, None)
      | Inr cj \<Rightarrow>
          (case discover_blades c (Linecards cj) of
             Inl f \<Rightarrow> Inl f
           | Inr T \<Rightarrow>
               (case configure_mappings slot_of c (blades T) of
                  Inl f \<Rightarrow> Inl f
                | Inr ms \<Rightarrow>
                    Inr \<lparr>chassis_id = address, chassis_address = address,
                         chassis_model = ''Coldfusion Chassis'', chassis_serial = Serial cj,
                         chassis_blades = blade_objs T, chassis_ports = port_objs T,
                         chassis_mappings = ms\<rparr>)))"

section \<open>Requests to the device\<close>

text \<open>
  A response of the \<^verbatim>\<open>requests\<close> library: its status code and its body, \<open>None\<close> when the
  body is not JSON (then \<^verbatim>\<open>r.json()\<close> raises \<^verbatim>\<open>ValueError\<close>). The device answers a request
  by its api path and body. \<^verbatim>\<open>self._session.post\<close> and \<^verbatim>\<open>self._session.put\<close> put the request on
  the wire and give the device's answer; every function that reaches them returns the
  requests sent, in order, beside its outcome.
\<close>

record http_response =
  status_code :: nat
  body :: "json option"

record pair =
  A :: "string option"
  B :: string

datatype request_body =
    MapBody string "pair list"
  | SpeedBody string

datatype request =
    POST string request_body
  | PUT string request_body

record session =
  http_post :: "string \<Rightarrow> request_body \<Rightarrow> http_response"
  http_put :: "string \<Rightarrow> request_body \<Rightarrow> http_response"

definition session_post ::
  "session \<Rightarrow> string \<Rightarrow> request_body \<Rightarrow> request list \<times> http_response" where
  "session_post s api b = ([POST api b], http_post s api b)"

definition session_put ::
  "session \<Rightarrow> string \<Rightarrow> request_body \<Rightarrow> request list \<times> http_response" where
  "session_put s api b = ([PUT api b], http_put s api b)"

text \<open>
  \<^verbatim>\<open>r.raise_for_status()\<close> raises \<^verbatim>\<open>HTTPError\<close> for a status from 400 to 599 and returns
  \<^verbatim>\<open>None\<close> otherwise.
\<close>

definition raise_for_status :: "http_response \<Rightarrow> error option" where
  "raise_for_status r =
     (if 400 \<le> status_code r \<and> status_code r < 600 then Some (HTTPError (status_code r))
      else None)"

text \<open>
  \<^verbatim>\<open>_handle_error(r)\<close> always raises. \<^verbatim>\<open>r.json()["Error"]\<close> has a value only for a JSON
  object with that key; every other body lands in the bare \<^verbatim>\<open>except\<close>, where
  \<^verbatim>\<open>raise r.raise_for_status()\<close> is \<^verbatim>\<open>raise None\<close>, a \<^verbatim>\<open>TypeError\<close>, when the call returns.
\<close>

definition handle_error :: "http_response \<Rightarrow> error" where
  "handle_error r =
     (case (case body r of Some (JObj kvs) \<Rightarrow> map_of kvs ''Error'' | _ \<Rightarrow> None) of
        Some err \<Rightarrow> ColdFusionException err
      | None \<Rightarrow> (case raise_for_status r of Some e \<Rightarrow> e | None \<Rightarrow> TypeError))"

definition chassis_put ::
  "session \<Rightarrow> string \<Rightarrow> request_body \<Rightarrow> request list \<times> (error + json)" where
  "chassis_put s api b =
     (case session_put s api b of
        (sent, r) \<Rightarrow>
          (sent,
           if status_code r = 200
           then (case body r of None \<Rightarrow> Inl ValueError | Some j \<Rightarrow> Inr j)
           else if status_code r = 204 then Inr (JObj [])
           else Inl (handle_error r)))"

definition chassis_post ::
  "session \<Rightarrow> string \<Rightarrow> request_body \<Rightarrow> request list \<times> (error + json)" where
  "chassis_post s api b =
     (case session_post s api b of
        (sent, r) \<Rightarrow>
          (sent,
           if status_code r = 200
           then (case body r of None \<Rightarrow> Inl ValueError | Some j \<Rightarrow> Inr j)
           else if status_code r = 204 then Inr (JObj [])
           else Inl (handle_error r)))"

text \<open>A mutating operation drops what \<^verbatim>\<open>chassis_post\<close> or \<^verbatim>\<open>chassis_put\<close> returns.\<close>

definition returns_nothing :: "request list \<times> (error + json) \<Rightarrow> request list \<times> (error + unit)" where
  "returns_nothing x =
     (case x of (sent, res) \<Rightarrow> (sent, case res of Inl e \<Rightarrow> Inl e | Inr j \<Rightarrow> Inr ()))"

text \<open>\<^verbatim>\<open>_portid(port)\<close>: reading \<^verbatim>\<open>parts[1]\<close> or \<^verbatim>\<open>parts[2]\<close> out of range raises.\<close>

definition portid :: "string \<Rightarrow> error + string" where
  "portid port =
     (let parts = py_split (CHR ''/'') port in
      if length parts > 2
      then Inr (parts ! 1 @ ''.''
                  @ map (\<lambda>c. if c = CHR ''_'' then CHR '':'' else c) (parts ! 2))
      else Inl IndexError)"

text \<open>
  \<^verbatim>\<open>_linecard_port_lane(port)\<close>: \<^verbatim>\<open>find("_")\<close> is the first underscore; the lane is the
  \<^verbatim>\<open>int\<close> of what follows it.
\<close>

definition linecard_port_lane :: "string \<Rightarrow> error + (string \<times> string \<times> int option)" where
  "linecard_port_lane port =
     (let parts = py_split (CHR ''/'') port in
      if length parts > 2 then
        (if CHR ''_'' \<in> set (parts ! 2) then
           (case py_int (tl (dropWhile (\<lambda>c. c \<noteq> CHR ''_'') (parts ! 2))) of
              Inl e \<Rightarrow> Inl e
            | Inr lane \<Rightarrow>
                Inr (parts ! 1, takeWhile (\<lambda>c. c \<noteq> CHR ''_'') (parts ! 2), Some lane))
         else Inr (parts ! 1, parts ! 2, None))
      else Inl IndexError)"

definition map_bidi :: "session \<Rightarrow> string \<Rightarrow> string \<Rightarrow> request list \<times> (error + unit)" where
  "map_bidi s src_port dst_port =
     (case portid src_port of
        Inl e \<Rightarrow> ([], Inl e)
      | Inr src \<Rightarrow>
          (case portid dst_port of
             Inl e \<Rightarrow> ([], Inl e)
           | Inr dst \<Rightarrow>
               returns_nothing
                 (chassis_post s ''map'' (MapBody ''TwoWay'' [\<lparr>A = Some src, B = dst\<rparr>]))))"

definition map_uni :: "session \<Rightarrow> string \<Rightarrow> string list \<Rightarrow> request list \<times> (error + unit)" where
  "map_uni s src_port dst_ports =
     (case portid src_port of
        Inl e \<Rightarrow> ([], Inl e)
      | Inr src_port_cf \<Rightarrow>
          (case econcat_map
                  (\<lambda>dst_port.
                     case portid dst_port of
                       Inl e \<Rightarrow> Inl e
                     | Inr dst_port_cf \<Rightarrow> Inr [\<lparr>A = Some src_port_cf, B = dst_port_cf\<rparr>])
                  dst_ports of
             Inl e \<Rightarrow> ([], Inl e)
           | Inr port_pairs \<Rightarrow>
               returns_nothing (chassis_post s ''map'' (MapBody ''OneWay'' port_pairs))))"

definition map_clear :: "session \<Rightarrow> string list \<Rightarrow> request list \<times> (error + unit)" where
  "map_clear s ports =
     (case econcat_map
             (\<lambda>dst_port.
                case portid dst_port of
                  Inl e \<Rightarrow> Inl e
                | Inr dst_port_cf \<Rightarrow> Inr [\<lparr>A = None, B = dst_port_cf\<rparr>])
             ports of
        Inl e \<Rightarrow> ([], Inl e)
      | Inr port_pairs \<Rightarrow>
          returns_nothing (chassis_post s ''unmap'' (MapBody ''Undefined'' port_pairs)))"

definition map_clear_to ::
  "session \<Rightarrow> string \<Rightarrow> string list \<Rightarrow> request list \<times> (error + unit)" where
  "map_clear_to s src_port dst_ports =
     (case portid src_port of
        Inl e \<Rightarrow> ([], Inl e)
      | Inr src_port_cf \<Rightarrow>
          (case econcat_map
                  (\<lambda>dst_port.
                     case portid dst_port of
                       Inl e \<Rightarrow> Inl e
                     | Inr dst_port_cf \<Rightarrow> Inr [\<lparr>A = Some src_port_cf, B = dst_port_cf\<rparr>])
                  dst_ports of
             Inl e \<Rightarrow> ([], Inl e)
           | Inr port_pairs \<Rightarrow>
               returns_nothing (chassis_post s ''unmap'' (MapBody ''OneWay'' port_pairs))))"

definition map_tap :: "session \<Rightarrow> string \<Rightarrow> string list \<Rightarrow> request list \<times> (error + unit)" where
  "map_tap s src_port dst_ports = map_uni s src_port dst_ports"

text \<open>
  \<^verbatim>\<open>set_attribute_value\<close>, lines 401 to 408. Python reads \<^verbatim>\<open>"," * lane-1 + attribute_value\<close>
  as \<^verbatim>\<open>(("," * lane) - 1) + attribute_value\<close>: a string minus an integer, which no operand
  supports. The repetition \<^verbatim>\<open>"," * lane\<close> comes first, and it raises \<^verbatim>\<open>OverflowError\<close> when the
  count does not fit a signed 64-bit index (memory is taken as unbounded). \<^verbatim>\<open>if lane:\<close> is
  false for \<^verbatim>\<open>None\<close> and for 0. The body carries \<^verbatim>\<open>attribute_value\<close>, not \<^verbatim>\<open>val\<close>, and the
  attribute's name is not read.
\<close>

definition py_str_mul :: "string \<Rightarrow> int \<Rightarrow> error + string" where
  "py_str_mul s n =
     (if n < - (2 ^ 63) \<or> 2 ^ 63 \<le> n then Inl OverflowError
      else Inr (concat (replicate (nat n) s)))"

definition py_str_sub_int :: "string \<Rightarrow> int \<Rightarrow> error + string" where
  "py_str_sub_int s i = Inl TypeError"

definition padded_value :: "int option \<Rightarrow> string \<Rightarrow> error + string" where
  "padded_value lane attribute_value =
     (case lane of
        None \<Rightarrow> Inr attribute_value
      | Some l \<Rightarrow>
          if l \<noteq> 0 then
            (case py_str_mul '','' l of
               Inl e \<Rightarrow> Inl e
             | Inr commas \<Rightarrow>
                 (case py_str_sub_int commas 1 of
                    Inl e \<Rightarrow> Inl e
                  | Inr t \<Rightarrow>
                      (case py_str_mul '','' (4 - l) of
                         Inl e \<Rightarrow> Inl e
                       | Inr trailing \<Rightarrow> Inr (t @ attribute_value @ trailing))))
          else Inr attribute_value)"

definition set_attribute_value ::
  "session \<Rightarrow> string \<Rightarrow> string \<Rightarrow> string \<Rightarrow> request list \<times> (error + unit)" where
  "set_attribute_value s cs_address attribute_name attribute_value =
     (case linecard_port_lane cs_address of
        Inl e \<Rightarrow> ([], Inl e)
      | Inr (linecard, port, lane) \<Rightarrow>
          (case padded_value lane attribute_value of
             Inl e \<Rightarrow> ([], Inl e)
           | Inr val \<Rightarrow>
               returns_nothing
                 (chassis_put s (''linecards/'' @ linecard @ ''/ports/'' @ port)
                    (SpeedBody attribute_value))))"

section \<open>An example chassis\<close>

text \<open>
  Three slots, the first empty. Linecard 2 has the breakout port 1 and the plain port 2;
  linecard 3 has four plain ports and port 5, a breakout port when \<open>brk5\<close> holds. \<open>e1\<close> and
  \<open>e2\<close> are the egress lists the device reports for the ports 2.1 and 2.2; the ports of
  linecard 3 report none.
\<close>

definition example_client :: "bool \<Rightarrow> egress \<Rightarrow> egress \<Rightarrow> client" where
  "example_client brk5 e1 e2 =
     \<lparr>chassis_get_root = Inr \<lparr>Serial = ''CF-0001'', Linecards = [JNull, JObj [], JObj []]\<rparr>,
      chassis_get_ports =
        (\<lambda>lc. if lc = 1 then Inr [\<lparr>ptype = ''OPort_CF1'', breakout = True\<rparr>,
                                  \<lparr>ptype = ''OPort_CF1'', breakout = False\<rparr>]
              else if lc = 2 then Inr [\<lparr>ptype = ''EPort'', breakout = False\<rparr>,
                                       \<lparr>ptype = ''EPort'', breakout = True\<rparr>,
                                       \<lparr>ptype = ''EPort'', breakout = False\<rparr>,
                                       \<lparr>ptype = ''EPort'', breakout = False\<rparr>,
                                       \<lparr>ptype = ''OPort_CF1'', breakout = brk5\<rparr>]
              else Inl (HTTPError 404)),
      chassis_post_show_flow =
        (\<lambda>ports. if ports = [''2.1'', ''2.2''] then Inr [e1, e2]
                  else Inr (replicate (length ports) []))\<rparr>"

text \<open>
  The slot CPython gives an integer key in a dict of at most five entries: the key modulo
  the 8 slots of the table. The keys 2 and 3 of the example chassis do not collide.
\<close>

definition example_slot :: "int \<Rightarrow> nat" where
  "example_slot k = nat (k mod 8)"

text \<open>A session whose device answers every request with the same status and body.\<close>

definition example_session :: "nat \<Rightarrow> json option \<Rightarrow> session" where
  "example_session st b =
     \<lparr>http_post = (\<lambda>api rb. \<lparr>status_code = st, body = b\<rparr>),
      http_put = (\<lambda>api rb. \<lparr>status_code = st, body = b\<rparr>)\<rparr>"

section \<open>Decimal digits, splitting and parsing\<close>

lemma digit_cases:
  "d < 10 \<Longrightarrow> d = 0 \<or> d = 1 \<or> d = 2 \<or> d = 3 \<or> d = 4 \<or> d = 5 \<or> d = 6 \<or> d = 7 \<or> d = 8 \<or> d = (9::nat)"
  by arith

lemma digit_char_props: "d < 10 \<Longrightarrow> is_digit (digit_char d) \<and> digit_val (digit_char d) = d"
  using digit_cases [of d] by (auto simp: is_digit_def digit_char_def digit_val_def)

lemma is_digit_not_special:
  "is_digit c \<Longrightarrow> c \<noteq> CHR ''.'' \<and> c \<noteq> CHR '':'' \<and> c \<noteq> CHR ''_'' \<and> c \<noteq> CHR ''-'' \<and> c \<noteq> CHR ''+''
     \<and> c \<noteq> CHR ''/'' \<and> \<not> is_space c"
  by (auto simp: is_digit_def is_space_def)

lemma str_nat_digits: "list_all is_digit (str_nat n) \<and> str_nat n \<noteq> []"
proof (induction n rule: str_nat.induct)
  case (1 n)
  show ?case
  proof (cases "n < 10")
    case True
    then show ?thesis by (simp add: str_nat.simps [of n] digit_char_props)
  next
    case False
    then show ?thesis using 1 by (simp add: str_nat.simps [of n] digit_char_props)
  qed
qed

lemma digits_val_snoc: "digits_val (ds @ [c]) = 10 * digits_val ds + digit_val c"
  by (simp add: digits_val_def)

lemma digits_val_str_nat: "digits_val (str_nat n) = n"
proof (induction n rule: str_nat.induct)
  case (1 n)
  show ?case
  proof (cases "n < 10")
    case True
    then show ?thesis by (simp add: str_nat.simps [of n] digit_char_props digits_val_def)
  next
    case False
    then have "digits_val (str_nat n) = 10 * (n div 10) + n mod 10"
      using 1 by (simp add: str_nat.simps [of n] digits_val_snoc digit_char_props)
    then show ?thesis by simp
  qed
qed

lemma str_nat_free: "c \<in> set (str_nat n) \<Longrightarrow> is_digit c"
  using str_nat_digits [of n] by (simp add: list_all_iff)

lemma strip_digits:
  assumes "list_all is_digit s" and "s \<noteq> []"
  shows "strip s = s"
proof -
  from assms obtain x xs where s: "s = x # xs" by (cases s) auto
  with assms have "\<not> is_space x" by (simp add: is_digit_not_special)
  then have a: "dropWhile is_space s = s" by (simp add: s)
  from assms have "is_digit (last s)" by (simp add: list_all_iff)
  then have "\<not> is_space (last s)" by (simp add: is_digit_not_special)
  then have "\<not> is_space (hd (rev s))" using assms(2) by (simp add: hd_rev)
  then have "dropWhile is_space (rev s) = rev s" using assms(2) by (cases "rev s") auto
  then show ?thesis by (simp add: strip_def a)
qed

lemma py_int_str_nat: "py_int (str_nat n) = Inr (int n)"
proof -
  have d: "list_all is_digit (str_nat n)" and ne: "str_nat n \<noteq> []"
    using str_nat_digits [of n] by simp_all
  from ne obtain x xs where s: "str_nat n = x # xs" by (cases "str_nat n") auto
  from d s have "is_digit x" by simp
  then have x: "x \<noteq> CHR ''-''" "x \<noteq> CHR ''+''" by (simp_all add: is_digit_not_special)
  have "strip (str_nat n) = x # xs" using strip_digits [OF d ne] s by simp
  then have "py_int (str_nat n) = py_int_digits False (str_nat n)"
    using x by (simp add: py_int_def s)
  then show ?thesis using d ne by (simp add: py_int_digits_def digits_val_str_nat)
qed


lemma py_split_none: "c \<notin> set a \<Longrightarrow> py_split c a = [a]"
  by (induction a) (auto split: list.splits)

lemma py_split_first: "c \<notin> set a \<Longrightarrow> py_split c (a @ c # b) = a # py_split c b"
  by (induction a) (auto split: list.splits)

lemma str_nat_no_dot: "CHR ''.'' \<notin> set (str_nat n)"
  using str_nat_free [of _ n] is_digit_not_special by blast

lemma str_nat_no_colon: "CHR '':'' \<notin> set (str_nat n)"
  using str_nat_free [of _ n] is_digit_not_special by blast

lemma py_int_minus1: "py_int ''-1'' = Inr (- 1)"
  by (simp add: py_int_def py_int_digits_def strip_def is_space_def is_digit_def digits_val_def digit_val_def)

lemma parse_lport_plain:
  "parse_lport (str_nat lc @ ''.'' @ str_nat p) = Inr (int lc, int p, - 1)"
proof -
  have "py_split (CHR ''.'') (str_nat lc @ CHR ''.'' # str_nat p) = [str_nat lc, str_nat p]"
    by (simp add: py_split_first py_split_none str_nat_no_dot)
  moreover have "py_split (CHR '':'') (str_nat p) = [str_nat p]"
    by (simp add: py_split_none str_nat_no_colon)
  ultimately show ?thesis
    by (simp add: parse_lport_def py_int_str_nat py_int_minus1)
qed




lemma zfill_chars: "c \<in> set (zfill w (str_nat n)) \<Longrightarrow> is_digit c"
proof -
  assume "c \<in> set (zfill w (str_nat n))"
  then have "c = CHR ''0'' \<or> c \<in> set (str_nat n)"
    by (auto simp: zfill_def)
  moreover have "is_digit (CHR ''0'')" by (simp add: is_digit_def)
  ultimately show "is_digit c" using str_nat_free by blast
qed

lemma format0_no_us: "CHR ''_'' \<notin> set (format0 w p)"
proof
  assume "CHR ''_'' \<in> set (format0 w p)"
  then have "\<exists>v n. CHR ''_'' \<in> set (zfill v (str_nat n))"
    by (auto simp: format0_def split: if_splits)
  then show False using zfill_chars is_digit_not_special by blast
qed

lemma zfill_length: "w \<le> length (zfill w s)"
  by (simp add: zfill_def)

lemma format0_2_length: "2 \<le> length (format0 2 p)"
proof (cases "p < 0")
  case True
  have "1 \<le> length (zfill 1 (str_nat (nat (- p))))" by (rule zfill_length)
  with True show ?thesis by (simp add: format0_def)
next
  case False
  have "2 \<le> length (zfill 2 (str_nat (nat p)))" by (rule zfill_length)
  with False show ?thesis by (simp add: format0_def)
qed

section \<open>The egress token parser\<close>






text \<open>
  Against the claim as first stated (a token with a wrong separator count fails rather than
  returning a value): \<^verbatim>\<open>"3.12:2:1"\<close> has two colons, and lines 457 to 461 send its three parts to
  the \<^verbatim>\<open>else\<close> branch, which returns a value with the lane defaulted.
\<close>

theorem parse_lport_tokens_counterexample:
  "count_list ''3.12:2:1'' (CHR '':'') = 2 \<and> parse_lport ''3.12:2:1'' = Inr (3, 12, - 1)"
  by (simp add: parse_lport_def py_int_def py_int_digits_def strip_def is_space_def
        is_digit_def digits_val_def digit_val_def)

section \<open>The compact port code\<close>

text \<open>
  Claim C10. \<open>qport\<close> treats an absent lane and every lane below 1 alike: the result is the
  unlaned code \<^verbatim>\<open>"{p:02d}"\<close> (at least two characters), and it is the lane-tagged code
  \<^verbatim>\<open>"{p:02d}_{lane}"\<close>, the only one with an underscore, exactly when the lane is at least 1.
  So a token without a lane, parsed with the lane \<open>-1\<close>, resolves on the non-breakout path
  to the key of the laneless lookup.
\<close>

theorem qport_lane_threshold:
  "qport p None = format0 2 p \<and>
   (\<forall>l. l < 1 \<longrightarrow> qport p (Some l) = format0 2 p) \<and>
   (\<forall>l. 1 \<le> l \<longrightarrow> qport p (Some l) = format0 2 p @ ''_'' @ py_str l) \<and>
   (CHR ''_'' \<in> set (qport p lane) \<longleftrightarrow> (\<exists>l. lane = Some l \<and> 1 \<le> l)) \<and>
   2 \<le> length (format0 2 p) \<and>
   parse_lport (egress_token lc n None) = Inr (int lc, int n, - 1) \<and>
   qport (int n) (Some (- 1)) = qport (int n) None \<and>
   (\<forall>bds bd po src rest.
      map_of bds (int lc) = Some bd \<and> map_of bd (qport (int n) None) = Some po \<longrightarrow>
      nonbreakout_egress bds src (Some (egress_token lc n None) # rest)
        = Inr [((int lc, qport (int n) None), src)])"
proof -
  have a: "CHR ''_'' \<in> set (qport p lane) \<longleftrightarrow> (\<exists>l. lane = Some l \<and> 1 \<le> l)"
    by (cases lane) (auto simp: qport_def format0_no_us)
  have b: "parse_lport (egress_token lc n None) = Inr (int lc, int n, - 1)"
    using parse_lport_plain [of lc n] by (simp add: egress_token_def)
  have c: "qport (int n) (Some (- 1)) = qport (int n) None"
    by (simp add: qport_def)
  have d: "nonbreakout_egress bds src (Some (egress_token lc n None) # rest)
        = Inr [((int lc, qport (int n) None), src)]"
    if "map_of bds (int lc) = Some bd" "map_of bd (qport (int n) None) = Some po"
    for bds bd po src rest
    using that b c by (simp add: nonbreakout_egress_def dict_get_def)
  show ?thesis
    using a b c d format0_2_length [of p] by (simp add: qport_def)
qed

theorem qport_lane_threshold_witness:
  "qport 5 None = ''05'' \<and> (- 1 :: int) < 1 \<and> qport 5 (Some (- 1)) = ''05'' \<and>
   (1 :: int) \<le> 3 \<and> qport 5 (Some 3) = ''05_3'' \<and> qport 5 (Some 0) = ''05'' \<and>
   map_of [(3 :: int, [(''05'', make_port ''05'' ''03.5.1'' ''3'')])] 3
     = Some [(''05'', make_port ''05'' ''03.5.1'' ''3'')] \<and>
   map_of [(''05'', make_port ''05'' ''03.5.1'' ''3'')] ''05'' = Some (make_port ''05'' ''03.5.1'' ''3'') \<and>
   nonbreakout_egress [(3, [(''05'', make_port ''05'' ''03.5.1'' ''3'')])] (1, ''01'') [Some ''3.5'']
     = Inr [((3, ''05''), (1, ''01''))]"
  using qport_lane_threshold [of 5 None 3 5]
  by (simp add: format0_def zfill_def py_str_def str_nat.simps digit_char_def egress_token_def qport_def)

section \<open>The first pass: linecards and ports\<close>


lemma dict_set_fresh: "k \<notin> fst ` set d \<Longrightarrow> dict_set d k v = d @ [(k, v)]"
  by (induction d) auto

lemma build_from_distinct:
  "distinct (map fst (d @ es)) \<Longrightarrow> foldl (\<lambda>d (k, v). dict_set d k v) d es = d @ es"
proof (induction es arbitrary: d)
  case Nil
  then show ?case by simp
next
  case (Cons e es)
  obtain k v where e: "e = (k, v)" by (cases e)
  from Cons.prems have fresh: "k \<notin> fst ` set d" by (auto simp: e)
  have "distinct (map fst ((d @ [(k, v)]) @ es))" using Cons.prems by (simp add: e)
  then have "foldl (\<lambda>d (k, v). dict_set d k v) (d @ [(k, v)]) es = (d @ [(k, v)]) @ es"
    by (rule Cons.IH)
  then show ?case by (simp add: e dict_set_fresh [OF fresh])
qed

lemma build_dict_distinct: "distinct (map fst es) \<Longrightarrow> build_dict es = es"
  using build_from_distinct [of "[]" es] by (simp add: build_dict_def)

lemma discover_fold:
  assumes "efold (discover_linecard c ljs) xs T = Inr T'"
    and "distinct xs" and "\<forall>x\<in>set xs. int x + 1 \<notin> fst ` set (blades T)"
  shows "blade_objs T' = blade_objs T @ map slot_blade (filter (\<lambda>lc. ljs ! lc \<noteq> JNull) xs) \<and>
    port_objs T' = port_objs T @ concat (map (\<lambda>lc. map snd (linecard_entries lc (projr (chassis_get_ports c (int lc)))))
        (filter (\<lambda>lc. ljs ! lc \<noteq> JNull) xs)) \<and>
    blades T' = blades T @ map (\<lambda>lc. (int lc + 1, build_dict (linecard_entries lc (projr (chassis_get_ports c (int lc))))))
        (filter (\<lambda>lc. ljs ! lc \<noteq> JNull) xs)"
  using assms
proof (induction xs arbitrary: T)
  case Nil
  then show ?case by simp
next
  case (Cons x xs)
  show ?case
  proof (cases "ljs ! x \<noteq> JNull")
    case False
    then have "discover_linecard c ljs x T = Inr T" by (simp add: discover_linecard_def)
    with Cons.prems have "efold (discover_linecard c ljs) xs T = Inr T'" by simp
    then show ?thesis using Cons.IH [of T] Cons.prems False by simp
  next
    case True
    from Cons.prems(1) obtain T1 where s1: "discover_linecard c ljs x T = Inr T1"
      and r: "efold (discover_linecard c ljs) xs T1 = Inr T'"
      by (auto split: sum.splits)
    from s1 True obtain pj where pj: "chassis_get_ports c (int x) = Inr pj"
      and T1: "T1 = T\<lparr>blade_objs := blade_objs T @ [slot_blade x],
                    port_objs := port_objs T @ map snd (linecard_entries x pj),
                    blades := dict_set (blades T) (int x + 1) (build_dict (linecard_entries x pj))\<rparr>"
      by (auto simp: discover_linecard_def slot_blade_def split: sum.splits)
    from Cons.prems(3) have fresh: "int x + 1 \<notin> fst ` set (blades T)" by simp
    have b1: "blades T1 = blades T @ [(int x + 1, build_dict (linecard_entries x pj))]"
      by (simp add: T1 dict_set_fresh [OF fresh])
    have "\<forall>y\<in>set xs. int y + 1 \<notin> fst ` set (blades T1)"
      using Cons.prems(2,3) by (auto simp: b1)
    with Cons.IH [OF r] Cons.prems(2) have
      "blade_objs T' = blade_objs T1 @ map slot_blade (filter (\<lambda>lc. ljs ! lc \<noteq> JNull) xs) \<and>
       port_objs T' = port_objs T1 @ concat (map (\<lambda>lc. map snd (linecard_entries lc (projr (chassis_get_ports c (int lc)))))
          (filter (\<lambda>lc. ljs ! lc \<noteq> JNull) xs)) \<and>
       blades T' = blades T1 @ map (\<lambda>lc. (int lc + 1, build_dict (linecard_entries lc (projr (chassis_get_ports c (int lc))))))
          (filter (\<lambda>lc. ljs ! lc \<noteq> JNull) xs)"
      by simp
    then show ?thesis using True pj by (simp add: b1) (simp add: T1)
  qed
qed

lemma discover_fold_total:
  assumes "\<forall>x\<in>set xs. ljs ! x \<noteq> JNull \<longrightarrow> (\<exists>pj. chassis_get_ports c (int x) = Inr pj)"
  shows "\<exists>T'. efold (discover_linecard c ljs) xs T = Inr T'"
  using assms
proof (induction xs arbitrary: T)
  case Nil
  then show ?case by simp
next
  case (Cons x xs)
  from Cons.prems obtain T1 where "discover_linecard c ljs x T = Inr T1"
    by (cases "ljs ! x \<noteq> JNull") (auto simp: discover_linecard_def)
  moreover from Cons.IH [of T1] Cons.prems obtain T' where
    "efold (discover_linecard c ljs) xs T1 = Inr T'" by auto
  ultimately show ?case by simp
qed



lemma discover_blades_result:
  assumes "discover_blades c ljs = Inr T"
  shows "blade_objs T = map slot_blade (filter (\<lambda>lc. ljs ! lc \<noteq> JNull) [0..<length ljs]) \<and>
    port_objs T = concat (map (\<lambda>lc. map snd (linecard_entries lc (projr (chassis_get_ports c (int lc)))))
        (filter (\<lambda>lc. ljs ! lc \<noteq> JNull) [0..<length ljs])) \<and>
    blades T = map (\<lambda>lc. (int lc + 1, build_dict (linecard_entries lc (projr (chassis_get_ports c (int lc))))))
        (filter (\<lambda>lc. ljs ! lc \<noteq> JNull) [0..<length ljs])"
  using discover_fold [of c ljs "[0..<length ljs]" "\<lparr>blade_objs = [], port_objs = [], blades = []\<rparr>" T] assms
  by (simp add: discover_blades_def)

lemma discovery_result:
  assumes "get_resource_description slot_of c a = Inr ch"
  shows "\<exists>cj T. chassis_get_root c = Inr cj \<and> discover_blades c (Linecards cj) = Inr T \<and>
     configure_mappings slot_of c (blades T) = Inr (chassis_mappings ch) \<and>
     chassis_blades ch = blade_objs T \<and> chassis_ports ch = port_objs T"
  using assms by (auto simp: get_resource_description_def split: sum.splits)



section \<open>Port keys are unambiguous\<close>

lemma digits_val_zero: "digits_val (CHR ''0'' # s) = digits_val s"
  by (simp add: digits_val_def digit_val_def)

lemma digits_val_zfill: "digits_val (zfill w s) = digits_val s"
proof -
  have "digits_val (replicate k (CHR ''0'') @ s) = digits_val s" for k
    by (induction k) (simp_all add: digits_val_zero)
  then show ?thesis by (simp add: zfill_def)
qed

lemma format0_nat: "format0 w (int n) = zfill w (str_nat n)"
  by (simp add: format0_def)

lemma digits_val_format0: "digits_val (format0 w (int n)) = n"
  by (simp add: format0_nat digits_val_zfill digits_val_str_nat)

lemma takeWhile_qport:
  "takeWhile (\<lambda>c. c \<noteq> CHR ''_'') (qport p lane) = format0 2 p"
proof -
  have a: "takeWhile (\<lambda>c. c \<noteq> CHR ''_'') (format0 2 p) = format0 2 p"
    using format0_no_us [of 2 p] by (simp add: takeWhile_eq_all_conv) metis
  have b: "takeWhile (\<lambda>c. c \<noteq> CHR ''_'') (format0 2 p @ CHR ''_'' # r) = format0 2 p" for r
    using format0_no_us [of 2 p] by (subst takeWhile_append2) auto
  show ?thesis using a b by (cases lane) (simp_all add: qport_def)
qed

lemma qport_port: "digits_val (takeWhile (\<lambda>c. c \<noteq> CHR ''_'') (qport (int n) lane)) = n"
  by (simp add: takeWhile_qport digits_val_format0)

lemma py_str_inj: "0 \<le> a \<Longrightarrow> 0 \<le> b \<Longrightarrow> py_str a = py_str b \<Longrightarrow> a = b"
proof -
  assume a: "0 \<le> a" and b: "0 \<le> b" and e: "py_str a = py_str b"
  then have "str_nat (nat a) = str_nat (nat b)" by (simp add: py_str_def)
  then have "digits_val (str_nat (nat a)) = digits_val (str_nat (nat b))" by simp
  then have "nat a = nat b" by (simp add: digits_val_str_nat)
  with a b show "a = b" by simp
qed

lemma qport_lanes_differ:
  assumes "1 \<le> l" and "1 \<le> m" and "qport p (Some l) = qport p (Some m)"
  shows "l = m"
proof -
  from assms have "py_str l = py_str m" by (simp add: qport_def)
  with assms(1,2) show ?thesis using py_str_inj [of l m] by simp
qed

lemma qport_underscore: "CHR ''_'' \<in> set (qport p lane) \<longleftrightarrow> (\<exists>l. lane = Some l \<and> 1 \<le> l)"
  by (cases lane) (auto simp: qport_def format0_no_us)

lemma lanes_upt: "[0..<4] = [0, 1, 2, 3::nat]"
  by code_simp

lemma port_entries_keys:
  "map fst (port_entries lc p pj) =
     (if breakout pj \<and> ptype pj = ''OPort_CF1''
      then [qport (int p + 1) (Some 1), qport (int p + 1) (Some 2),
            qport (int p + 1) (Some 3), qport (int p + 1) (Some 4)]
      else [qport (int p + 1) None])"
  by (simp add: port_entries_def lanes_upt)

lemma port_entries_keys_distinct: "distinct (map fst (port_entries lc p pj))"
proof -
  have "qport (int p + 1) (Some l) \<noteq> qport (int p + 1) (Some m)"
    if "1 \<le> l" "1 \<le> m" "l \<noteq> m" for l m
    using qport_lanes_differ [of l m "int p + 1"] that by blast
  then show ?thesis by (simp add: port_entries_keys)
qed

lemma port_entries_key_port:
  assumes "k \<in> fst ` set (port_entries lc p pj)"
  shows "digits_val (takeWhile (\<lambda>c. c \<noteq> CHR ''_'') k) = Suc p"
proof -
  from assms have "k \<in> set (map fst (port_entries lc p pj))" by simp
  then obtain lane where "k = qport (int p + 1) lane"
    by (auto simp: port_entries_keys split: if_splits)
  then have "k = qport (int (Suc p)) lane" by (simp add: add.commute)
  then show ?thesis by (simp only: qport_port)
qed

lemma entries_keys_distinct:
  "distinct ps \<Longrightarrow> distinct (map fst (concat (map (\<lambda>p. port_entries lc p (f p)) ps)))"
proof (induction ps)
  case Nil
  then show ?case by simp
next
  case (Cons p ps)
  have "fst ` set (port_entries lc p (f p)) \<inter> fst ` (\<Union>q\<in>set ps. set (port_entries lc q (f q))) = {}"
  proof (rule ccontr)
    assume "\<not> ?thesis"
    then obtain k q where k: "k \<in> fst ` set (port_entries lc p (f p))"
      and q: "q \<in> set ps" "k \<in> fst ` set (port_entries lc q (f q))" by auto
    from port_entries_key_port [OF k] port_entries_key_port [OF q(2)] have "p = q" by simp
    with Cons.prems q(1) show False by simp
  qed
  then show ?case using Cons port_entries_keys_distinct [of lc p "f p"] by (simp add: image_Un)
qed

lemma linecard_entries_distinct: "distinct (map fst (linecard_entries lc pjs))"
  unfolding linecard_entries_def by (rule entries_keys_distinct) simp

lemma linecard_dict: "build_dict (linecard_entries lc pjs) = linecard_entries lc pjs"
  by (rule build_dict_distinct) (rule linecard_entries_distinct)

lemma blades_lookup:
  assumes d: "discover_blades c ljs = Inr T" and lc: "lc < length ljs" "ljs ! lc \<noteq> JNull"
    and pj: "chassis_get_ports c (int lc) = Inr pjs"
  shows "map_of (blades T) (int lc + 1) = Some (linecard_entries lc pjs)"
proof -
  let ?xs = "filter (\<lambda>lc. ljs ! lc \<noteq> JNull) [0..<length ljs]"
  have b: "blades T = map (\<lambda>lc. (int lc + 1, linecard_entries lc (projr (chassis_get_ports c (int lc))))) ?xs"
    using discover_blades_result [OF d] by (simp add: linecard_dict)
  have "map fst (blades T) = map (\<lambda>lc. int lc + 1) ?xs" by (simp add: b comp_def)
  moreover have "distinct (map (\<lambda>lc. int lc + 1) ?xs)"
    by (simp add: distinct_map inj_on_def)
  ultimately have dist: "distinct (map fst (blades T))" by simp
  have "lc \<in> set ?xs" using lc by simp
  then have "(int lc + 1, linecard_entries lc pjs) \<in> set (blades T)"
    using pj by (force simp: b)
  then show ?thesis using dist by simp
qed

lemma py_str_small: "py_str 1 = ''1''" "py_str 2 = ''2''" "py_str 3 = ''3''" "py_str 4 = ''4''"
  by (simp_all add: py_str_def str_nat.simps digit_char_def)

lemma format0_1: "format0 1 i = py_str i"
proof -
  have "1 - length (str_nat n) = 0" for n
    using str_nat_digits [of n] by (cases "str_nat n") simp_all
  then show ?thesis by (simp add: format0_def py_str_def zfill_def)
qed

lemma concat_map_mem: "x \<in> set xs \<Longrightarrow> set (f x) \<subseteq> set (concat (map f xs))"
  by auto

lemma discovery_ports:
  assumes "get_resource_description slot_of c a = Inr ch" and "chassis_get_root c = Inr cj"
  shows "chassis_ports ch =
        concat (map (\<lambda>lc. concat (map (\<lambda>p. map snd (port_entries lc p
                                     (projr (chassis_get_ports c (int lc)) ! p)))
                                  [0..<length (projr (chassis_get_ports c (int lc)))]))
                  (filter (\<lambda>lc. Linecards cj ! lc \<noteq> JNull) [0..<length (Linecards cj)]))"
proof -
  from discovery_result [OF assms(1)] assms(2) obtain T0 where
    T0: "discover_blades c (Linecards cj) = Inr T0" "chassis_ports ch = port_objs T0" by auto
  show ?thesis
    using discover_blades_result [OF T0(1)]
    by (simp add: T0(2) linecard_entries_def map_concat comp_def)
qed

lemma discovery_port_entries:
  assumes "get_resource_description slot_of c a = Inr ch" and "chassis_get_root c = Inr cj"
    and "lc < length (Linecards cj)" and "Linecards cj ! lc \<noteq> JNull"
    and "chassis_get_ports c (int lc) = Inr pjs" and "p < length pjs"
  shows "set (map snd (port_entries lc p (pjs ! p))) \<subseteq> set (chassis_ports ch)"
proof -
  define inner where "inner = (\<lambda>lc p. map snd (port_entries lc p
                                     (projr (chassis_get_ports c (int lc)) ! p)))"
  define outer where "outer = (\<lambda>lc. concat (map (inner lc)
                                  [0..<length (projr (chassis_get_ports c (int lc)))]))"
  define lcs where "lcs = filter (\<lambda>lc. Linecards cj ! lc \<noteq> JNull) [0..<length (Linecards cj)]"
  have ports: "chassis_ports ch = concat (map outer lcs)"
    unfolding outer_def inner_def lcs_def by (rule discovery_ports [OF assms(1,2)])
  have "p \<in> set [0..<length (projr (chassis_get_ports c (int lc)))]"
    using assms(5,6) by simp
  then have "set (inner lc p) \<subseteq> set (outer lc)"
    unfolding outer_def by (rule concat_map_mem)
  moreover have "lc \<in> set lcs" using assms(3,4) by (simp add: lcs_def)
  then have "set (outer lc) \<subseteq> set (concat (map outer lcs))"
    by (rule concat_map_mem)
  moreover have "inner lc p = map snd (port_entries lc p (pjs ! p))"
    using assms(5) by (simp add: inner_def)
  ultimately show ?thesis by (simp only: ports) 
qed

lemma port_entries_count:
  "length (port_entries lc p pj) = (if breakout pj \<and> ptype pj = ''OPort_CF1'' then 4 else 1)"
  by (simp add: port_entries_def)

text \<open>
  Claim C4. A port whose \<^verbatim>\<open>Type\<close> is \<^verbatim>\<open>"OPort_CF1"\<close> and whose \<^verbatim>\<open>Breakout\<close> flag is set produces
  exactly four \<^verbatim>\<open>Port\<close> objects, for the lanes 1 to 4, with the ids \<^verbatim>\<open>"{p:02d}_{lane}"\<close> and the
  serials \<^verbatim>\<open>"{lc:02d}.{p:01d}.{lane}"\<close>; every other port produces exactly one, with the id
  \<^verbatim>\<open>"{p:02d}"\<close> and the serial \<^verbatim>\<open>"{lc:02d}.{p:01d}.1"\<close> (\<open>lc\<close> and \<open>p\<close> 1-based, \<^verbatim>\<open>{p:01d}\<close> being
  the plain decimal). In a run of the first pass the dict of a linecard holds exactly these
  entries of its ports, in order and under distinct keys, and the ports created are these
  and no others. A discovery that returns a chassis returns exactly these ports: the ports
  of the chassis are the entries of every port of every populated slot, in the order of the
  slots and of the ports, so each port of the device is there with its four objects or its
  one.
\<close>

theorem ports_per_port_json:
  "(breakout pj \<and> ptype pj = ''OPort_CF1'' \<longrightarrow>
      map snd (port_entries lc p pj) =
        [make_port (format0 2 (int p + 1) @ ''_1'')
           (format0 2 (int lc + 1) @ ''.'' @ format0 1 (int p + 1) @ ''.1'') (py_str (int lc + 1)),
         make_port (format0 2 (int p + 1) @ ''_2'')
           (format0 2 (int lc + 1) @ ''.'' @ format0 1 (int p + 1) @ ''.2'') (py_str (int lc + 1)),
         make_port (format0 2 (int p + 1) @ ''_3'')
           (format0 2 (int lc + 1) @ ''.'' @ format0 1 (int p + 1) @ ''.3'') (py_str (int lc + 1)),
         make_port (format0 2 (int p + 1) @ ''_4'')
           (format0 2 (int lc + 1) @ ''.'' @ format0 1 (int p + 1) @ ''.4'') (py_str (int lc + 1))]) \<and>
   (\<not> (breakout pj \<and> ptype pj = ''OPort_CF1'') \<longrightarrow>
      map snd (port_entries lc p pj) =
        [make_port (format0 2 (int p + 1))
           (format0 2 (int lc + 1) @ ''.'' @ format0 1 (int p + 1) @ ''.1'') (py_str (int lc + 1))]) \<and>
   format0 1 (int p + 1) = py_str (int p + 1) \<and>
   map fst (port_entries lc p pj) = map (port_id \<circ> snd) (port_entries lc p pj) \<and>
   (discover_blades c ljs = Inr T \<and> lc < length ljs \<and> ljs ! lc \<noteq> JNull \<and>
    chassis_get_ports c (int lc) = Inr pjs \<longrightarrow>
      map_of (blades T) (int lc + 1)
        = Some (concat (map (\<lambda>p. port_entries lc p (pjs ! p)) [0..<length pjs])) \<and>
      distinct (map fst (concat (map (\<lambda>p. port_entries lc p (pjs ! p)) [0..<length pjs])))) \<and>
   (discover_blades c ljs = Inr T \<longrightarrow>
      port_objs T =
        concat (map (\<lambda>lc. concat (map (\<lambda>p. map snd (port_entries lc p
                                     (projr (chassis_get_ports c (int lc)) ! p)))
                                  [0..<length (projr (chassis_get_ports c (int lc)))]))
                  (filter (\<lambda>lc. ljs ! lc \<noteq> JNull) [0..<length ljs]))) \<and>
   (get_resource_description slot_of c a = Inr ch \<and> chassis_get_root c = Inr cj \<longrightarrow>
      chassis_ports ch =
        concat (map (\<lambda>lc. concat (map (\<lambda>p. map snd (port_entries lc p
                                     (projr (chassis_get_ports c (int lc)) ! p)))
                                  [0..<length (projr (chassis_get_ports c (int lc)))]))
                  (filter (\<lambda>lc. Linecards cj ! lc \<noteq> JNull) [0..<length (Linecards cj)]))) \<and>
   (get_resource_description slot_of c a = Inr ch \<and> chassis_get_root c = Inr cj \<and>
    lc < length (Linecards cj) \<and> Linecards cj ! lc \<noteq> JNull \<and>
    chassis_get_ports c (int lc) = Inr pjs \<and> p < length pjs \<longrightarrow>
      set (map snd (port_entries lc p (pjs ! p))) \<subseteq> set (chassis_ports ch) \<and>
      length (port_entries lc p (pjs ! p)) =
        (if breakout (pjs ! p) \<and> ptype (pjs ! p) = ''OPort_CF1'' then 4 else 1))"
proof -
  have a: "map snd (port_entries lc p pj) =
        [make_port (format0 2 (int p + 1) @ ''_1'')
           (format0 2 (int lc + 1) @ ''.'' @ format0 1 (int p + 1) @ ''.1'') (py_str (int lc + 1)),
         make_port (format0 2 (int p + 1) @ ''_2'')
           (format0 2 (int lc + 1) @ ''.'' @ format0 1 (int p + 1) @ ''.2'') (py_str (int lc + 1)),
         make_port (format0 2 (int p + 1) @ ''_3'')
           (format0 2 (int lc + 1) @ ''.'' @ format0 1 (int p + 1) @ ''.3'') (py_str (int lc + 1)),
         make_port (format0 2 (int p + 1) @ ''_4'')
           (format0 2 (int lc + 1) @ ''.'' @ format0 1 (int p + 1) @ ''.4'') (py_str (int lc + 1))]"
    if "breakout pj \<and> ptype pj = ''OPort_CF1''"
    using that by (simp add: port_entries_def lanes_upt qport_def py_str_small)
  have b: "map snd (port_entries lc p pj) =
        [make_port (format0 2 (int p + 1))
           (format0 2 (int lc + 1) @ ''.'' @ format0 1 (int p + 1) @ ''.1'') (py_str (int lc + 1))]"
    if "\<not> (breakout pj \<and> ptype pj = ''OPort_CF1'')"
    using that by (auto simp add: port_entries_def qport_def)
  have c: "format0 1 (int p + 1) = py_str (int p + 1)" by (rule format0_1)
  have d: "map fst (port_entries lc p pj) = map (port_id \<circ> snd) (port_entries lc p pj)"
    by (simp add: port_entries_def make_port_def)
  have e: "map_of (blades T) (int lc + 1)
        = Some (concat (map (\<lambda>p. port_entries lc p (pjs ! p)) [0..<length pjs])) \<and>
      distinct (map fst (concat (map (\<lambda>p. port_entries lc p (pjs ! p)) [0..<length pjs])))"
    if he: "discover_blades c ljs = Inr T \<and> lc < length ljs \<and> ljs ! lc \<noteq> JNull \<and>
      chassis_get_ports c (int lc) = Inr pjs"
  proof -
    from he have "map_of (blades T) (int lc + 1) = Some (linecard_entries lc pjs)"
      by (intro blades_lookup [of c ljs T lc pjs]) simp_all
    then show ?thesis
      using linecard_entries_distinct [of lc pjs] by (simp add: linecard_entries_def)
  qed
  have f: "port_objs T =
        concat (map (\<lambda>lc. concat (map (\<lambda>p. map snd (port_entries lc p
                                     (projr (chassis_get_ports c (int lc)) ! p)))
                                  [0..<length (projr (chassis_get_ports c (int lc)))]))
                  (filter (\<lambda>lc. ljs ! lc \<noteq> JNull) [0..<length ljs]))"
    if "discover_blades c ljs = Inr T"
    using discover_blades_result [OF that]
    by (simp add: linecard_entries_def map_concat comp_def)
  have g: "chassis_ports ch =
        concat (map (\<lambda>lc. concat (map (\<lambda>p. map snd (port_entries lc p
                                     (projr (chassis_get_ports c (int lc)) ! p)))
                                  [0..<length (projr (chassis_get_ports c (int lc)))]))
                  (filter (\<lambda>lc. Linecards cj ! lc \<noteq> JNull) [0..<length (Linecards cj)]))"
    if "get_resource_description slot_of c a = Inr ch \<and> chassis_get_root c = Inr cj"
    by (rule discovery_ports [OF that [THEN conjunct1] that [THEN conjunct2]])
  have h: "set (map snd (port_entries lc p (pjs ! p))) \<subseteq> set (chassis_ports ch) \<and>
      length (port_entries lc p (pjs ! p)) =
        (if breakout (pjs ! p) \<and> ptype (pjs ! p) = ''OPort_CF1'' then 4 else 1)"
    if hh: "get_resource_description slot_of c a = Inr ch \<and> chassis_get_root c = Inr cj \<and>
      lc < length (Linecards cj) \<and> Linecards cj ! lc \<noteq> JNull \<and>
      chassis_get_ports c (int lc) = Inr pjs \<and> p < length pjs"
  proof
    from hh have h1: "get_resource_description slot_of c a = Inr ch"
      and h2: "chassis_get_root c = Inr cj" and h3: "lc < length (Linecards cj)"
      and h4: "Linecards cj ! lc \<noteq> JNull" and h5: "chassis_get_ports c (int lc) = Inr pjs"
      and h6: "p < length pjs" by simp_all
    show "set (map snd (port_entries lc p (pjs ! p))) \<subseteq> set (chassis_ports ch)"
      by (rule discovery_port_entries [OF h1 h2 h3 h4 h5 h6])
    show "length (port_entries lc p (pjs ! p)) =
        (if breakout (pjs ! p) \<and> ptype (pjs ! p) = ''OPort_CF1'' then 4 else 1)"
      by (rule port_entries_count)
  qed
  show ?thesis
    by (rule conjI [OF impI [OF a] conjI [OF impI [OF b] conjI [OF c conjI [OF d
          conjI [OF impI [OF e] conjI [OF impI [OF f] conjI [OF impI [OF g] impI [OF h]]]]]]]])
qed

theorem ports_per_port_json_witness:
  "map snd (port_entries 1 0 \<lparr>ptype = ''OPort_CF1'', breakout = True\<rparr>) =
     [make_port ''01_1'' ''02.1.1'' ''2'', make_port ''01_2'' ''02.1.2'' ''2'',
      make_port ''01_3'' ''02.1.3'' ''2'', make_port ''01_4'' ''02.1.4'' ''2''] \<and>
   map snd (port_entries 2 1 \<lparr>ptype = ''EPort'', breakout = True\<rparr>) = [make_port ''02'' ''03.2.1'' ''3''] \<and>
   map snd (port_entries 1 1 \<lparr>ptype = ''OPort_CF1'', breakout = False\<rparr>) = [make_port ''02'' ''02.2.1'' ''2''] \<and>
   map_of (blades (projr (discover_blades (example_client True [] []) [JNull, JObj [], JObj []]))) 2 =
     Some [(''01_1'', make_port ''01_1'' ''02.1.1'' ''2''), (''01_2'', make_port ''01_2'' ''02.1.2'' ''2''),
           (''01_3'', make_port ''01_3'' ''02.1.3'' ''2''), (''01_4'', make_port ''01_4'' ''02.1.4'' ''2''),
           (''02'', make_port ''02'' ''02.2.1'' ''2'')] \<and>
   isl (get_resource_description example_slot (example_client True [] []) ''10.0.0.1'') = False \<and>
   map port_serial
     (chassis_ports (projr (get_resource_description example_slot (example_client True [] [])
                              ''10.0.0.1'')))
     = [''02.1.1'', ''02.1.2'', ''02.1.3'', ''02.1.4'', ''02.2.1'',
        ''03.1.1'', ''03.2.1'', ''03.3.1'', ''03.4.1'',
        ''03.5.1'', ''03.5.2'', ''03.5.3'', ''03.5.4''] \<and>
   set [make_port ''01_1'' ''02.1.1'' ''2'', make_port ''01_2'' ''02.1.2'' ''2'',
        make_port ''01_3'' ''02.1.3'' ''2'', make_port ''01_4'' ''02.1.4'' ''2'']
     \<subseteq> set (chassis_ports (projr (get_resource_description example_slot
                                     (example_client True [] []) ''10.0.0.1'')))"
proof -
  let ?c = "example_client True [] []" and ?l = "[JNull, JObj [], JObj []]"
  let ?pjs = "[\<lparr>ptype = ''OPort_CF1'', breakout = True\<rparr>, \<lparr>ptype = ''OPort_CF1'', breakout = False\<rparr>]"
  let ?cj = "\<lparr>Serial = ''CF-0001'', Linecards = ?l\<rparr>"
  have fm: "format0 2 1 = ''01''" "format0 2 2 = ''02''" "format0 2 3 = ''03''"
    by (simp_all add: format0_def zfill_def str_nat.simps digit_char_def)
  have f1: "format0 (Suc 0) i = py_str i" for i
    using format0_1 [of i] by simp
  have p1: "map snd (port_entries 1 0 \<lparr>ptype = ''OPort_CF1'', breakout = True\<rparr>) =
     [make_port ''01_1'' ''02.1.1'' ''2'', make_port ''01_2'' ''02.1.2'' ''2'',
      make_port ''01_3'' ''02.1.3'' ''2'', make_port ''01_4'' ''02.1.4'' ''2'']"
    using ports_per_port_json [where pj = "\<lparr>ptype = ''OPort_CF1'', breakout = True\<rparr>"
        and lc = 1 and p = 0, THEN conjunct1]
    by (simp add: fm py_str_small f1)
  have p2: "map snd (port_entries 2 1 \<lparr>ptype = ''EPort'', breakout = True\<rparr>) = [make_port ''02'' ''03.2.1'' ''3'']"
    using ports_per_port_json [where pj = "\<lparr>ptype = ''EPort'', breakout = True\<rparr>"
        and lc = 2 and p = 1, THEN conjunct2, THEN conjunct1]
    by (simp add: fm py_str_small f1)
  have p3: "map snd (port_entries 1 1 \<lparr>ptype = ''OPort_CF1'', breakout = False\<rparr>) = [make_port ''02'' ''02.2.1'' ''2'']"
    using ports_per_port_json [where pj = "\<lparr>ptype = ''OPort_CF1'', breakout = False\<rparr>"
        and lc = 1 and p = 1, THEN conjunct2, THEN conjunct1]
    by (simp add: fm py_str_small f1)
  have "\<exists>T. discover_blades ?c ?l = Inr T"
    unfolding discover_blades_def
    by (rule discover_fold_total) (auto simp: example_client_def less_Suc_eq numeral_3_eq_3)
  then obtain T where T: "discover_blades ?c ?l = Inr T" ..
  have g: "chassis_get_ports ?c 1 = Inr ?pjs" by (simp add: example_client_def)
  have "map_of (blades T) (int 1 + 1)
        = Some (concat (map (\<lambda>p. port_entries 1 p (?pjs ! p)) [0..<length ?pjs]))"
    using ports_per_port_json [where lc = 1 and c = ?c and ljs = ?l and T = T and pjs = ?pjs,
        THEN conjunct2, THEN conjunct2, THEN conjunct2, THEN conjunct2, THEN conjunct1]
      T g by simp
  also have "concat (map (\<lambda>p. port_entries 1 p (?pjs ! p)) [0..<length ?pjs]) =
      [(''01_1'', make_port ''01_1'' ''02.1.1'' ''2''), (''01_2'', make_port ''01_2'' ''02.1.2'' ''2''),
           (''01_3'', make_port ''01_3'' ''02.1.3'' ''2''), (''01_4'', make_port ''01_4'' ''02.1.4'' ''2''),
           (''02'', make_port ''02'' ''02.2.1'' ''2'')]"
    by code_simp
  finally have p4: "map_of (blades (projr (discover_blades ?c ?l))) 2 =
     Some [(''01_1'', make_port ''01_1'' ''02.1.1'' ''2''), (''01_2'', make_port ''01_2'' ''02.1.2'' ''2''),
           (''01_3'', make_port ''01_3'' ''02.1.3'' ''2''), (''01_4'', make_port ''01_4'' ''02.1.4'' ''2''),
           (''02'', make_port ''02'' ''02.2.1'' ''2'')]"
    using T by simp
  have ok: "isl (get_resource_description example_slot ?c ''10.0.0.1'') = False"
    by code_simp
  then obtain ch where ch: "get_resource_description example_slot ?c ''10.0.0.1'' = Inr ch"
    by (cases "get_resource_description example_slot ?c ''10.0.0.1''") simp_all
  have chp: "projr (get_resource_description example_slot ?c ''10.0.0.1'') = ch"
    by (simp add: ch)
  have r: "chassis_get_root ?c = Inr ?cj" by (simp add: example_client_def)
  let ?ports = "concat (map (\<lambda>lc. concat (map (\<lambda>p. map snd (port_entries lc p
                                     (projr (chassis_get_ports ?c (int lc)) ! p)))
                                  [0..<length (projr (chassis_get_ports ?c (int lc)))]))
                  (filter (\<lambda>lc. Linecards ?cj ! lc \<noteq> JNull) [0..<length (Linecards ?cj)]))"
  have eq: "chassis_ports ch = ?ports"
    by (rule ports_per_port_json [where c = ?c and slot_of = example_slot and a = "''10.0.0.1''"
          and ch = ch and cj = ?cj,
          THEN conjunct2, THEN conjunct2, THEN conjunct2, THEN conjunct2, THEN conjunct2,
          THEN conjunct2, THEN conjunct1, THEN mp, OF conjI [OF ch r]])
  have ev: "map port_serial ?ports = [''02.1.1'', ''02.1.2'', ''02.1.3'', ''02.1.4'', ''02.2.1'',
        ''03.1.1'', ''03.2.1'', ''03.3.1'', ''03.4.1'',
        ''03.5.1'', ''03.5.2'', ''03.5.3'', ''03.5.4'']"
    by code_simp
  have serials: "map port_serial
     (chassis_ports (projr (get_resource_description example_slot ?c ''10.0.0.1'')))
     = [''02.1.1'', ''02.1.2'', ''02.1.3'', ''02.1.4'', ''02.2.1'',
        ''03.1.1'', ''03.2.1'', ''03.3.1'', ''03.4.1'',
        ''03.5.1'', ''03.5.2'', ''03.5.3'', ''03.5.4'']"
    unfolding chp eq by (rule ev)
  have "set (map snd (port_entries 1 0 (?pjs ! 0))) \<subseteq> set (chassis_ports ch)"
    by (rule ports_per_port_json [where c = ?c and slot_of = example_slot and a = "''10.0.0.1''"
          and ch = ch and cj = ?cj and lc = 1 and p = 0 and pjs = ?pjs,
          THEN conjunct2, THEN conjunct2, THEN conjunct2, THEN conjunct2, THEN conjunct2,
          THEN conjunct2, THEN conjunct2, THEN mp, THEN conjunct1])
       (simp add: ch r g)
  moreover have "map snd (port_entries 1 0 (?pjs ! 0)) =
      [make_port ''01_1'' ''02.1.1'' ''2'', make_port ''01_2'' ''02.1.2'' ''2'',
        make_port ''01_3'' ''02.1.3'' ''2'', make_port ''01_4'' ''02.1.4'' ''2'']"
    by code_simp
  ultimately have sub: "set [make_port ''01_1'' ''02.1.1'' ''2'', make_port ''01_2'' ''02.1.2'' ''2'',
        make_port ''01_3'' ''02.1.3'' ''2'', make_port ''01_4'' ''02.1.4'' ''2'']
     \<subseteq> set (chassis_ports (projr (get_resource_description example_slot ?c ''10.0.0.1'')))"
    by (simp only: chp)
  show ?thesis by (intro conjI p1 p2 p3 p4 ok serials sub)
qed

section \<open>The second pass: egress resolution\<close>









lemma econcat_map_singletons:
  "(\<And>x. x \<in> set xs \<Longrightarrow> f x = Inr [g x]) \<Longrightarrow> econcat_map f xs = Inr (map g xs)"
  by (induction xs) auto




section \<open>Missing port keys\<close>











section \<open>Requests and their outcomes\<close>

lemma chassis_post_sent: "fst (chassis_post s api b) = [POST api b]"
  by (simp add: chassis_post_def session_post_def)

lemma chassis_put_sent: "fst (chassis_put s api b) = [PUT api b]"
  by (simp add: chassis_put_def session_put_def)

lemma returns_nothing_post:
  "returns_nothing (chassis_post s api b) =
     ([POST api b], case snd (chassis_post s api b) of Inl e \<Rightarrow> Inl e | Inr j \<Rightarrow> Inr ())"
  by (simp add: returns_nothing_def chassis_post_def session_post_def)

lemma returns_nothing_put:
  "returns_nothing (chassis_put s api b) =
     ([PUT api b], case snd (chassis_put s api b) of Inl e \<Rightarrow> Inl e | Inr j \<Rightarrow> Inr ())"
  by (simp add: returns_nothing_def chassis_put_def session_put_def)

lemma chassis_post_cases:
  "snd (chassis_post s api b) =
     (let r = http_post s api b in
      if status_code r = 204 then Inr (JObj [])
      else if status_code r = 200 then (case body r of None \<Rightarrow> Inl ValueError | Some j \<Rightarrow> Inr j)
      else Inl (handle_error r))"
  by (simp add: chassis_post_def session_post_def Let_def)

lemma chassis_put_cases:
  "snd (chassis_put s api b) =
     (let r = http_put s api b in
      if status_code r = 204 then Inr (JObj [])
      else if status_code r = 200 then (case body r of None \<Rightarrow> Inl ValueError | Some j \<Rightarrow> Inr j)
      else Inl (handle_error r))"
  by (simp add: chassis_put_def session_put_def Let_def)

lemma handle_error_device:
  "body r = Some (JObj kvs) \<Longrightarrow> map_of kvs ''Error'' = Some m \<Longrightarrow>
     handle_error r = ColdFusionException m"
  by (simp add: handle_error_def)

lemma handle_error_status:
  assumes "400 \<le> status_code r" and "status_code r < 600"
    and "\<forall>kvs. body r = Some (JObj kvs) \<longrightarrow> map_of kvs ''Error'' = None"
  shows "handle_error r = HTTPError (status_code r)"
proof -
  have "(case body r of Some (JObj kvs) \<Rightarrow> map_of kvs ''Error'' | _ \<Rightarrow> None) = None"
    using assms(3) by (auto split: option.splits json.splits)
  then show ?thesis using assms(1,2) by (simp add: handle_error_def raise_for_status_def)
qed

lemma set_attribute_value_request:
  assumes "set_attribute_value s addr name val = (reqs, out)" and "reqs \<noteq> []"
  shows "\<exists>api b. reqs = [PUT api b] \<and>
           out = (case snd (chassis_put s api b) of Inl e \<Rightarrow> Inl e | Inr j \<Rightarrow> Inr ())"
proof (cases "linecard_port_lane addr")
  case (Inl e)
  with assms show ?thesis by (simp add: set_attribute_value_def)
next
  case (Inr t)
  obtain lcs pt lane where t: "t = (lcs, pt, lane)" by (cases t)
  show ?thesis
  proof (cases "padded_value lane val")
    case (Inl e)
    with assms Inr t show ?thesis by (simp add: set_attribute_value_def)
  next
    case v: (Inr v)
    define api where "api = ''linecards/'' @ lcs @ ''/ports/'' @ pt"
    have "set_attribute_value s addr name val = returns_nothing (chassis_put s api (SpeedBody val))"
      unfolding api_def
      by (simp only: set_attribute_value_def Inr t v sum.case prod.case)
    with assms(1) have "(reqs, out) =
        ([PUT api (SpeedBody val)],
         case snd (chassis_put s api (SpeedBody val)) of Inl e \<Rightarrow> Inl e | Inr j \<Rightarrow> Inr ())"
      by (simp only: returns_nothing_put)
    then have "reqs = [PUT api (SpeedBody val)] \<and>
        out = (case snd (chassis_put s api (SpeedBody val)) of
                 Inl e \<Rightarrow> Inl e | Inr j \<Rightarrow> Inr ())"
      by (simp only: prod.inject)
    then show ?thesis by (intro exI)
  qed
qed

lemma portid_21: "portid ''192.168.42.240/1/21'' = Inr ''1.21''"
  by code_simp

lemma portid_22: "portid ''192.168.42.240/1/22'' = Inr ''1.22''"
  by code_simp

lemma lpl_21: "linecard_port_lane ''192.168.42.240/1/21'' = Inr (''1'', ''21'', None)"
  by code_simp

text \<open>
  Claim C7, amended. A mutating operation whose addresses resolve issues one request and
  returns what the response decides. A status other than 200 and 204 whose body is a JSON
  object with an \<^verbatim>\<open>Error\<close> field raises \<^verbatim>\<open>ColdFusionException\<close> with that field's value,
  unchanged; a status from 400 to 599 without such a body raises the \<^verbatim>\<open>HTTPError\<close> of that
  status; the status 204, and the status 200 with a JSON body, return nothing; the status
  200 with a body that is not JSON raises \<^verbatim>\<open>ValueError\<close>.
\<close>

theorem response_outcomes:
  "(\<forall>api b r. r = http_post s api b \<longrightarrow>
      fst (chassis_post s api b) = [POST api b] \<and>
      (status_code r = 204 \<or> (status_code r = 200 \<and> body r \<noteq> None) \<longrightarrow>
         (\<exists>j. snd (chassis_post s api b) = Inr j)) \<and>
      (status_code r \<noteq> 200 \<and> status_code r \<noteq> 204 \<and>
       (\<exists>kvs. body r = Some (JObj kvs) \<and> map_of kvs ''Error'' = Some m) \<longrightarrow>
         snd (chassis_post s api b) = Inl (ColdFusionException m)) \<and>
      (400 \<le> status_code r \<and> status_code r < 600 \<and>
       (\<forall>kvs. body r = Some (JObj kvs) \<longrightarrow> map_of kvs ''Error'' = None) \<longrightarrow>
         snd (chassis_post s api b) = Inl (HTTPError (status_code r))) \<and>
      (status_code r = 200 \<and> body r = None \<longrightarrow> snd (chassis_post s api b) = Inl ValueError)) \<and>
   (\<forall>api b r. r = http_put s api b \<longrightarrow>
      fst (chassis_put s api b) = [PUT api b] \<and>
      (status_code r = 204 \<or> (status_code r = 200 \<and> body r \<noteq> None) \<longrightarrow>
         (\<exists>j. snd (chassis_put s api b) = Inr j)) \<and>
      (status_code r \<noteq> 200 \<and> status_code r \<noteq> 204 \<and>
       (\<exists>kvs. body r = Some (JObj kvs) \<and> map_of kvs ''Error'' = Some m) \<longrightarrow>
         snd (chassis_put s api b) = Inl (ColdFusionException m)) \<and>
      (400 \<le> status_code r \<and> status_code r < 600 \<and>
       (\<forall>kvs. body r = Some (JObj kvs) \<longrightarrow> map_of kvs ''Error'' = None) \<longrightarrow>
         snd (chassis_put s api b) = Inl (HTTPError (status_code r))) \<and>
      (status_code r = 200 \<and> body r = None \<longrightarrow> snd (chassis_put s api b) = Inl ValueError)) \<and>
   (\<forall>reqs out. (map_bidi s src dst = (reqs, out) \<or> map_uni s src dsts = (reqs, out) \<or>
                map_tap s src dsts = (reqs, out)) \<and> reqs \<noteq> [] \<longrightarrow>
      (\<exists>b. reqs = [POST ''map'' b] \<and>
           out = (case snd (chassis_post s ''map'' b) of Inl e \<Rightarrow> Inl e | Inr j \<Rightarrow> Inr ()))) \<and>
   (\<forall>reqs out. (map_clear s dsts = (reqs, out) \<or> map_clear_to s src dsts = (reqs, out)) \<and>
                reqs \<noteq> [] \<longrightarrow>
      (\<exists>b. reqs = [POST ''unmap'' b] \<and>
           out = (case snd (chassis_post s ''unmap'' b) of Inl e \<Rightarrow> Inl e | Inr j \<Rightarrow> Inr ()))) \<and>
   (\<forall>reqs out. set_attribute_value s addr name val = (reqs, out) \<and> reqs \<noteq> [] \<longrightarrow>
      (\<exists>api b. reqs = [PUT api b] \<and>
           out = (case snd (chassis_put s api b) of Inl e \<Rightarrow> Inl e | Inr j \<Rightarrow> Inr ())))"
proof -
  have post: "fst (chassis_post s api b) = [POST api b] \<and>
      (status_code r = 204 \<or> (status_code r = 200 \<and> body r \<noteq> None) \<longrightarrow>
         (\<exists>j. snd (chassis_post s api b) = Inr j)) \<and>
      (status_code r \<noteq> 200 \<and> status_code r \<noteq> 204 \<and>
       (\<exists>kvs. body r = Some (JObj kvs) \<and> map_of kvs ''Error'' = Some m) \<longrightarrow>
         snd (chassis_post s api b) = Inl (ColdFusionException m)) \<and>
      (400 \<le> status_code r \<and> status_code r < 600 \<and>
       (\<forall>kvs. body r = Some (JObj kvs) \<longrightarrow> map_of kvs ''Error'' = None) \<longrightarrow>
         snd (chassis_post s api b) = Inl (HTTPError (status_code r))) \<and>
      (status_code r = 200 \<and> body r = None \<longrightarrow> snd (chassis_post s api b) = Inl ValueError)"
    if "r = http_post s api b" for api b r
    using that handle_error_device [of r _ m] handle_error_status [of r]
    by (auto simp: chassis_post_cases chassis_post_sent Let_def)
  have put: "fst (chassis_put s api b) = [PUT api b] \<and>
      (status_code r = 204 \<or> (status_code r = 200 \<and> body r \<noteq> None) \<longrightarrow>
         (\<exists>j. snd (chassis_put s api b) = Inr j)) \<and>
      (status_code r \<noteq> 200 \<and> status_code r \<noteq> 204 \<and>
       (\<exists>kvs. body r = Some (JObj kvs) \<and> map_of kvs ''Error'' = Some m) \<longrightarrow>
         snd (chassis_put s api b) = Inl (ColdFusionException m)) \<and>
      (400 \<le> status_code r \<and> status_code r < 600 \<and>
       (\<forall>kvs. body r = Some (JObj kvs) \<longrightarrow> map_of kvs ''Error'' = None) \<longrightarrow>
         snd (chassis_put s api b) = Inl (HTTPError (status_code r))) \<and>
      (status_code r = 200 \<and> body r = None \<longrightarrow> snd (chassis_put s api b) = Inl ValueError)"
    if "r = http_put s api b" for api b r
    using that handle_error_device [of r _ m] handle_error_status [of r]
    by (auto simp: chassis_put_cases chassis_put_sent Let_def)
  have maps: "\<exists>b. reqs = [POST ''map'' b] \<and>
           out = (case snd (chassis_post s ''map'' b) of Inl e \<Rightarrow> Inl e | Inr j \<Rightarrow> Inr ())"
    if "(map_bidi s src dst = (reqs, out) \<or> map_uni s src dsts = (reqs, out) \<or>
                map_tap s src dsts = (reqs, out)) \<and> reqs \<noteq> []" for reqs out
    using that
    by (auto simp: map_bidi_def map_uni_def map_tap_def returns_nothing_post split: sum.splits)
  have unmaps: "\<exists>b. reqs = [POST ''unmap'' b] \<and>
           out = (case snd (chassis_post s ''unmap'' b) of Inl e \<Rightarrow> Inl e | Inr j \<Rightarrow> Inr ())"
    if "(map_clear s dsts = (reqs, out) \<or> map_clear_to s src dsts = (reqs, out)) \<and>
                reqs \<noteq> []" for reqs out
    using that
    by (auto simp: map_clear_def map_clear_to_def returns_nothing_post split: sum.splits)
  have attr: "\<exists>api b. reqs = [PUT api b] \<and>
           out = (case snd (chassis_put s api b) of Inl e \<Rightarrow> Inl e | Inr j \<Rightarrow> Inr ())"
    if "set_attribute_value s addr name val = (reqs, out) \<and> reqs \<noteq> []" for reqs out
    using that by (intro set_attribute_value_request [of s addr name val reqs out]) simp_all
  have post': "\<forall>api b r. r = http_post s api b \<longrightarrow>
      fst (chassis_post s api b) = [POST api b] \<and>
      (status_code r = 204 \<or> (status_code r = 200 \<and> body r \<noteq> None) \<longrightarrow>
         (\<exists>j. snd (chassis_post s api b) = Inr j)) \<and>
      (status_code r \<noteq> 200 \<and> status_code r \<noteq> 204 \<and>
       (\<exists>kvs. body r = Some (JObj kvs) \<and> map_of kvs ''Error'' = Some m) \<longrightarrow>
         snd (chassis_post s api b) = Inl (ColdFusionException m)) \<and>
      (400 \<le> status_code r \<and> status_code r < 600 \<and>
       (\<forall>kvs. body r = Some (JObj kvs) \<longrightarrow> map_of kvs ''Error'' = None) \<longrightarrow>
         snd (chassis_post s api b) = Inl (HTTPError (status_code r))) \<and>
      (status_code r = 200 \<and> body r = None \<longrightarrow> snd (chassis_post s api b) = Inl ValueError)"
    by (intro allI impI, erule post)
  have put': "\<forall>api b r. r = http_put s api b \<longrightarrow>
      fst (chassis_put s api b) = [PUT api b] \<and>
      (status_code r = 204 \<or> (status_code r = 200 \<and> body r \<noteq> None) \<longrightarrow>
         (\<exists>j. snd (chassis_put s api b) = Inr j)) \<and>
      (status_code r \<noteq> 200 \<and> status_code r \<noteq> 204 \<and>
       (\<exists>kvs. body r = Some (JObj kvs) \<and> map_of kvs ''Error'' = Some m) \<longrightarrow>
         snd (chassis_put s api b) = Inl (ColdFusionException m)) \<and>
      (400 \<le> status_code r \<and> status_code r < 600 \<and>
       (\<forall>kvs. body r = Some (JObj kvs) \<longrightarrow> map_of kvs ''Error'' = None) \<longrightarrow>
         snd (chassis_put s api b) = Inl (HTTPError (status_code r))) \<and>
      (status_code r = 200 \<and> body r = None \<longrightarrow> snd (chassis_put s api b) = Inl ValueError)"
    by (intro allI impI, erule put)
  have maps': "\<forall>reqs out. (map_bidi s src dst = (reqs, out) \<or> map_uni s src dsts = (reqs, out) \<or>
                map_tap s src dsts = (reqs, out)) \<and> reqs \<noteq> [] \<longrightarrow>
      (\<exists>b. reqs = [POST ''map'' b] \<and>
           out = (case snd (chassis_post s ''map'' b) of Inl e \<Rightarrow> Inl e | Inr j \<Rightarrow> Inr ()))"
    by (intro allI impI, erule maps)
  have unmaps': "\<forall>reqs out. (map_clear s dsts = (reqs, out) \<or> map_clear_to s src dsts = (reqs, out)) \<and>
                reqs \<noteq> [] \<longrightarrow>
      (\<exists>b. reqs = [POST ''unmap'' b] \<and>
           out = (case snd (chassis_post s ''unmap'' b) of Inl e \<Rightarrow> Inl e | Inr j \<Rightarrow> Inr ()))"
    by (intro allI impI, erule unmaps)
  have attr': "\<forall>reqs out. set_attribute_value s addr name val = (reqs, out) \<and> reqs \<noteq> [] \<longrightarrow>
      (\<exists>api b. reqs = [PUT api b] \<and>
           out = (case snd (chassis_put s api b) of Inl e \<Rightarrow> Inl e | Inr j \<Rightarrow> Inr ()))"
    by (intro allI impI, erule attr)
  show ?thesis
    by (rule conjI [OF post' conjI [OF put' conjI [OF maps' conjI [OF unmaps' attr']]]])
qed

text \<open>
  The outcomes at work on \<^verbatim>\<open>map_uni\<close> and on an attribute write: the body
  \<^verbatim>\<open>{"Error": "port busy"}\<close> under status 500 raises \<^verbatim>\<open>ColdFusionException\<close> with the text
  \<^verbatim>\<open>port busy\<close>, a body that is not JSON under status 503 raises \<^verbatim>\<open>HTTPError\<close> 503, and the
  statuses 204 and 200 return nothing.
\<close>

theorem response_outcomes_witness:
  "snd (map_uni (example_session 500 (Some (JObj [(''Error'', JStr ''port busy'')])))
          ''192.168.42.240/1/21'' [''192.168.42.240/1/22''])
     = Inl (ColdFusionException (JStr ''port busy'')) \<and>
   snd (map_uni (example_session 503 None) ''192.168.42.240/1/21'' [''192.168.42.240/1/22''])
     = Inl (HTTPError 503) \<and>
   snd (map_uni (example_session 204 None) ''192.168.42.240/1/21'' [''192.168.42.240/1/22''])
     = Inr () \<and>
   snd (set_attribute_value (example_session 200 (Some (JObj []))) ''192.168.42.240/1/21''
          ''speed'' ''10000'')
     = Inr ()"
proof -
  let ?src = "''192.168.42.240/1/21''" and ?dsts = "[''192.168.42.240/1/22'']"
  let ?b = "MapBody ''OneWay'' [\<lparr>A = Some ''1.21'', B = ''1.22''\<rparr>]"
  have req: "fst (map_uni s ?src ?dsts) = [POST ''map'' ?b]" for s
    by (simp add: map_uni_def portid_21 portid_22 returns_nothing_post)
  have out: "snd (map_uni s ?src ?dsts)
      = (case snd (chassis_post s ''map'' ?b) of Inl e \<Rightarrow> Inl e | Inr j \<Rightarrow> Inr ())" for s
  proof -
    obtain reqs out where m: "map_uni s ?src ?dsts = (reqs, out)" by (cases "map_uni s ?src ?dsts")
    with req [of s] have r: "reqs = [POST ''map'' ?b]" by simp
    have "\<exists>b. reqs = [POST ''map'' b] \<and>
           out = (case snd (chassis_post s ''map'' b) of Inl e \<Rightarrow> Inl e | Inr j \<Rightarrow> Inr ())"
      by (rule response_outcomes [where s = s and src = ?src and dsts = ?dsts,
            THEN conjunct2, THEN conjunct2, THEN conjunct1, rule_format]) (simp add: m r)
    then obtain b' where "reqs = [POST ''map'' b']"
      "out = (case snd (chassis_post s ''map'' b') of Inl e \<Rightarrow> Inl e | Inr j \<Rightarrow> Inr ())"
      by (elim exE conjE)
    with r m show ?thesis by simp
  qed
  let ?s1 = "example_session 500 (Some (JObj [(''Error'', JStr ''port busy'')]))"
  have "snd (chassis_post ?s1 ''map'' ?b) = Inl (ColdFusionException (JStr ''port busy''))"
    by (rule response_outcomes [THEN conjunct1, rule_format, OF refl, THEN conjunct2,
          THEN conjunct2, THEN conjunct1, THEN mp]) (simp add: example_session_def)
  then have a: "snd (map_uni ?s1 ?src ?dsts) = Inl (ColdFusionException (JStr ''port busy''))"
    by (simp only: out sum.case)
  let ?s2 = "example_session 503 None"
  have "snd (chassis_post ?s2 ''map'' ?b) = Inl (HTTPError (status_code (http_post ?s2 ''map'' ?b)))"
    by (rule response_outcomes [THEN conjunct1, rule_format, OF refl, THEN conjunct2,
          THEN conjunct2, THEN conjunct2, THEN conjunct1, THEN mp])
      (simp add: example_session_def)
  then have b: "snd (map_uni ?s2 ?src ?dsts) = Inl (HTTPError 503)"
    by (simp add: out example_session_def)
  let ?s3 = "example_session 204 None"
  have "\<exists>j. snd (chassis_post ?s3 ''map'' ?b) = Inr j"
    by (rule response_outcomes [THEN conjunct1, rule_format, OF refl, THEN conjunct2,
          THEN conjunct1, THEN mp]) (simp add: example_session_def)
  then obtain j where "snd (chassis_post ?s3 ''map'' ?b) = Inr j" ..
  then have c: "snd (map_uni ?s3 ?src ?dsts) = Inr ()"
    by (simp only: out sum.case)
  have d: "snd (set_attribute_value (example_session 200 (Some (JObj []))) ''192.168.42.240/1/21''
          ''speed'' ''10000'') = Inr ()"
    by (simp add: set_attribute_value_def lpl_21 padded_value_def returns_nothing_put
        chassis_put_cases example_session_def Let_def)
  show ?thesis by (intro conjI a b c d)
qed

text \<open>
  Claim C7 as it is written fails outside the statuses 204 and 400 to 599. Under status
  300 with a body that is not JSON, \<^verbatim>\<open>raise_for_status()\<close> returns and \<^verbatim>\<open>raise None\<close> is a
  \<^verbatim>\<open>TypeError\<close>, which carries no status code; the same happens under status 201 with a JSON
  body, where nothing went wrong; and status 200 with a body that is not JSON raises
  \<^verbatim>\<open>ValueError\<close> instead of returning nothing.
\<close>

theorem response_outcomes_counterexample:
  "map_uni (example_session 300 None) ''192.168.42.240/1/21'' [''192.168.42.240/1/22'']
     = ([POST ''map'' (MapBody ''OneWay'' [\<lparr>A = Some ''1.21'', B = ''1.22''\<rparr>])], Inl TypeError) \<and>
   map_bidi (example_session 201 (Some (JObj []))) ''192.168.42.240/1/21'' ''192.168.42.240/1/22''
     = ([POST ''map'' (MapBody ''TwoWay'' [\<lparr>A = Some ''1.21'', B = ''1.22''\<rparr>])], Inl TypeError) \<and>
   map_clear (example_session 200 None) [''192.168.42.240/1/22'']
     = ([POST ''unmap'' (MapBody ''Undefined'' [\<lparr>A = None, B = ''1.22''\<rparr>])], Inl ValueError)"
  by (simp add: map_uni_def map_bidi_def map_clear_def portid_21 portid_22 returns_nothing_post
      chassis_post_cases Let_def example_session_def handle_error_def raise_for_status_def)

section \<open>Tap and one-way mapping\<close>

lemma portid_resolves:
  "2 < length (py_split (CHR ''/'') a) \<Longrightarrow> portid a = Inr (projr (portid a))"
  by (simp add: portid_def Let_def)

lemma map_uni_request:
  assumes "2 < length (py_split (CHR ''/'') src)"
    and "\<forall>d \<in> set dsts. 2 < length (py_split (CHR ''/'') d)"
  shows "map_uni s src dsts =
    returns_nothing (chassis_post s ''map'' (MapBody ''OneWay''
       (map (\<lambda>d. \<lparr>A = Some (projr (portid src)), B = projr (portid d)\<rparr>) dsts)))"
proof -
  define a where "a = projr (portid src)"
  have src: "portid src = Inr a"
    unfolding a_def using assms(1) by (rule portid_resolves)
  have "econcat_map
          (\<lambda>dst_port. case portid dst_port of
                         Inl e \<Rightarrow> Inl e
                       | Inr dst_port_cf \<Rightarrow> Inr [\<lparr>A = Some a, B = dst_port_cf\<rparr>]) dsts
        = Inr (map (\<lambda>d. \<lparr>A = Some a, B = projr (portid d)\<rparr>) dsts)"
  proof (rule econcat_map_singletons)
    fix d assume "d \<in> set dsts"
    with assms(2) have "2 < length (py_split (CHR ''/'') d)" by simp
    then have "portid d = Inr (projr (portid d))" by (rule portid_resolves)
    then show "(case portid d of Inl e \<Rightarrow> Inl e
                | Inr dst_port_cf \<Rightarrow> Inr [\<lparr>A = Some a, B = dst_port_cf\<rparr>])
               = Inr [\<lparr>A = Some a, B = projr (portid d)\<rparr>]"
      by (cases "portid d") simp_all
  qed
  then have "map_uni s src dsts =
    returns_nothing (chassis_post s ''map'' (MapBody ''OneWay''
       (map (\<lambda>d. \<lparr>A = Some a, B = projr (portid d)\<rparr>) dsts)))"
    by (simp add: map_uni_def src)
  then show ?thesis by (simp only: a_def)
qed

lemma map_uni_unresolved:
  assumes "\<not> 2 < length (py_split (CHR ''/'') src)"
  shows "map_uni s src dsts = ([], Inl IndexError)"
proof -
  from assms have "portid src = Inl IndexError"
    by (simp add: portid_def Let_def)
  then show ?thesis by (simp add: map_uni_def)
qed

lemma portid_external:
  assumes "CHR ''/'' \<notin> set dev" and "CHR ''/'' \<notin> set lc" and "CHR ''/'' \<notin> set pt"
  shows "portid (dev @ CHR ''/'' # lc @ CHR ''/'' # pt)
    = Inr (lc @ CHR ''.'' # map (\<lambda>c. if c = CHR ''_'' then CHR '':'' else c) pt)"
proof -
  have "py_split (CHR ''/'') (dev @ CHR ''/'' # lc @ CHR ''/'' # pt) = [dev, lc, pt]"
    using assms by (simp add: py_split_first py_split_none)
  then show ?thesis by (simp add: portid_def)
qed

text \<open>
  Claim C8. \<open>map_tap\<close> is \<open>map_uni\<close>: the same requests sent and the same outcome for every
  source and destination list. For addresses of the external form (a device, a linecard and
  a port part) both send exactly one request through \<^verbatim>\<open>chassis_post\<close>, the \<^verbatim>\<open>POST\<close> to \<^verbatim>\<open>map\<close> with
  the direction \<^verbatim>\<open>OneWay\<close> and one pair per destination, in order, each with \<^verbatim>\<open>A\<close> the resolved
  source and \<^verbatim>\<open>B\<close> the resolved destination, and their outcome is what the device's answer to
  that very request decides. A source without those three parts raises before anything is
  sent. An address \<^verbatim>\<open>device/linecard/port\<close> resolves to \<^verbatim>\<open>linecard.port\<close> with the underscores
  of the port part turned into colons.
\<close>

theorem tap_is_map_uni:
  "map_tap s src dsts = map_uni s src dsts \<and>
   (2 < length (py_split (CHR ''/'') src) \<and>
    (\<forall>d \<in> set dsts. 2 < length (py_split (CHR ''/'') d)) \<longrightarrow>
      fst (map_tap s src dsts) =
        [POST ''map'' (MapBody ''OneWay''
           (map (\<lambda>d. \<lparr>A = Some (projr (portid src)), B = projr (portid d)\<rparr>) dsts))] \<and>
      fst (map_uni s src dsts) =
        [POST ''map'' (MapBody ''OneWay''
           (map (\<lambda>d. \<lparr>A = Some (projr (portid src)), B = projr (portid d)\<rparr>) dsts))] \<and>
      snd (map_tap s src dsts) =
        (let r = http_post s ''map'' (MapBody ''OneWay''
                   (map (\<lambda>d. \<lparr>A = Some (projr (portid src)), B = projr (portid d)\<rparr>) dsts))
         in if status_code r = 200
            then (case body r of None \<Rightarrow> Inl ValueError | Some j \<Rightarrow> Inr ())
            else if status_code r = 204 then Inr ()
            else Inl (handle_error r))) \<and>
   (\<not> 2 < length (py_split (CHR ''/'') src) \<longrightarrow> map_tap s src dsts = ([], Inl IndexError)) \<and>
   (CHR ''/'' \<notin> set dev \<and> CHR ''/'' \<notin> set lc \<and> CHR ''/'' \<notin> set pt \<longrightarrow>
      portid (dev @ CHR ''/'' # lc @ CHR ''/'' # pt)
        = Inr (lc @ CHR ''.'' # map (\<lambda>c. if c = CHR ''_'' then CHR '':'' else c) pt))"
proof -
  let ?b = "MapBody ''OneWay''
       (map (\<lambda>d. \<lparr>A = Some (projr (portid src)), B = projr (portid d)\<rparr>) dsts)"
  have a: "map_tap s src dsts = map_uni s src dsts" by (simp add: map_tap_def)
  have b: "fst (map_tap s src dsts) = [POST ''map'' ?b] \<and>
      fst (map_uni s src dsts) = [POST ''map'' ?b] \<and>
      snd (map_tap s src dsts) =
        (let r = http_post s ''map'' ?b
         in if status_code r = 200
            then (case body r of None \<Rightarrow> Inl ValueError | Some j \<Rightarrow> Inr ())
            else if status_code r = 204 then Inr ()
            else Inl (handle_error r))"
    if h: "2 < length (py_split (CHR ''/'') src) \<and>
        (\<forall>d \<in> set dsts. 2 < length (py_split (CHR ''/'') d))"
  proof -
    from h have u: "map_uni s src dsts = returns_nothing (chassis_post s ''map'' ?b)"
      by (intro map_uni_request) simp_all
    have "snd (returns_nothing (chassis_post s ''map'' ?b)) =
        (let r = http_post s ''map'' ?b
         in if status_code r = 200
            then (case body r of None \<Rightarrow> Inl ValueError | Some j \<Rightarrow> Inr ())
            else if status_code r = 204 then Inr ()
            else Inl (handle_error r))"
      by (simp add: returns_nothing_post chassis_post_cases Let_def split: option.splits)
    moreover have "fst (returns_nothing (chassis_post s ''map'' ?b)) = [POST ''map'' ?b]"
      by (simp add: returns_nothing_post)
    ultimately show ?thesis by (simp only: a u simp_thms)
  qed
  have c: "map_tap s src dsts = ([], Inl IndexError)"
    if "\<not> 2 < length (py_split (CHR ''/'') src)"
    unfolding a using that by (rule map_uni_unresolved)
  have d: "portid (dev @ CHR ''/'' # lc @ CHR ''/'' # pt)
        = Inr (lc @ CHR ''.'' # map (\<lambda>c. if c = CHR ''_'' then CHR '':'' else c) pt)"
    if "CHR ''/'' \<notin> set dev \<and> CHR ''/'' \<notin> set lc \<and> CHR ''/'' \<notin> set pt"
    using that by (intro portid_external) simp_all
  show ?thesis
    by (rule conjI [OF a conjI [OF impI [OF b] conjI [OF impI [OF c] impI [OF d]]]])
qed

text \<open>
  A tap of port 1/21 to the ports 1/22 and 1/23 lane 2 on a device that answers 204: one
  request, two pairs, both with the source \<^verbatim>\<open>1.21\<close>, and nothing returned; on a device that
  answers 500 with a body that is not JSON, the same request and the \<^verbatim>\<open>HTTPError\<close>.
\<close>

theorem tap_is_map_uni_witness:
  "map_tap (example_session 204 None) ''192.168.42.240/1/21''
          [''192.168.42.240/1/22'', ''192.168.42.240/1/23_2'']
     = ([POST ''map'' (MapBody ''OneWay''
          [\<lparr>A = Some ''1.21'', B = ''1.22''\<rparr>, \<lparr>A = Some ''1.21'', B = ''1.23:2''\<rparr>])], Inr ()) \<and>
   map_tap (example_session 500 None) ''192.168.42.240/1/21''
          [''192.168.42.240/1/22'', ''192.168.42.240/1/23_2'']
     = ([POST ''map'' (MapBody ''OneWay''
          [\<lparr>A = Some ''1.21'', B = ''1.22''\<rparr>, \<lparr>A = Some ''1.21'', B = ''1.23:2''\<rparr>])],
        Inl (HTTPError 500)) \<and>
   map_tap (example_session 204 None) ''192.168.42.240/1/21''
          [''192.168.42.240/1/22'', ''192.168.42.240/1/23_2'']
     = map_uni (example_session 204 None) ''192.168.42.240/1/21''
          [''192.168.42.240/1/22'', ''192.168.42.240/1/23_2''] \<and>
   map_tap (example_session 204 None) ''192.168.42.240'' [''192.168.42.240/1/22'']
     = ([], Inl IndexError) \<and>
   portid ''192.168.42.240/1/23_2'' = Inr ''1.23:2''"
proof -
  let ?src = "''192.168.42.240/1/21''"
  let ?dsts = "[''192.168.42.240/1/22'', ''192.168.42.240/1/23_2'']"
  let ?b = "MapBody ''OneWay''
          [\<lparr>A = Some ''1.21'', B = ''1.22''\<rparr>, \<lparr>A = Some ''1.21'', B = ''1.23:2''\<rparr>]"
  have l: "2 < length (py_split (CHR ''/'') ?src) \<and>
           (\<forall>d \<in> set ?dsts. 2 < length (py_split (CHR ''/'') d))"
    by simp
  have "portid (''192.168.42.240'' @ CHR ''/'' # ''1'' @ CHR ''/'' # ''23_2'')
      = Inr (''1'' @ CHR ''.'' # map (\<lambda>c. if c = CHR ''_'' then CHR '':'' else c) ''23_2'')"
    by (rule tap_is_map_uni [THEN conjunct2, THEN conjunct2, THEN conjunct2, THEN mp]) simp
  then have p3: "portid ''192.168.42.240/1/23_2'' = Inr ''1.23:2''"
    by simp
  have both: "fst (map_tap s ?src ?dsts) = [POST ''map'' ?b] \<and>
      snd (map_tap s ?src ?dsts) =
        (let r = http_post s ''map'' ?b
         in if status_code r = 200
            then (case body r of None \<Rightarrow> Inl ValueError | Some j \<Rightarrow> Inr ())
            else if status_code r = 204 then Inr ()
            else Inl (handle_error r))" for s
    using tap_is_map_uni [where s = s and src = ?src and dsts = ?dsts,
          THEN conjunct2, THEN conjunct1, THEN mp, OF l]
    by (simp add: portid_21 portid_22 p3)
  have a: "map_tap (example_session 204 None) ?src ?dsts = ([POST ''map'' ?b], Inr ())"
    using both [of "example_session 204 None"]
    by (simp add: prod_eq_iff example_session_def)
  have b: "map_tap (example_session 500 None) ?src ?dsts = ([POST ''map'' ?b], Inl (HTTPError 500))"
    using both [of "example_session 500 None"]
    by (simp add: prod_eq_iff example_session_def handle_error_def raise_for_status_def)
  have c: "map_tap (example_session 204 None) ?src ?dsts = map_uni (example_session 204 None) ?src ?dsts"
    by (rule tap_is_map_uni [THEN conjunct1])
  have d: "map_tap (example_session 204 None) ''192.168.42.240'' [''192.168.42.240/1/22'']
     = ([], Inl IndexError)"
    by (rule tap_is_map_uni [THEN conjunct2, THEN conjunct2, THEN conjunct1, THEN mp]) simp
  show ?thesis by (intro conjI a b c d p3)
qed

section \<open>The speed attribute of a lane\<close>

text \<open>
  Claim C9 at the address \<^verbatim>\<open>192.168.42.240/1/21_3\<close>. The lane is 3; the padding expression
  raises for every lane other than 0 (\<^verbatim>\<open>TypeError\<close>, or \<^verbatim>\<open>OverflowError\<close> for a lane beyond 64
  bits), so no padded string is built and no request is issued. Only without a lane (or with
  lane 0) does the write reach the device, as a \<^verbatim>\<open>PUT\<close> on the linecard and port path.
\<close>

theorem lane_speed_write_raises:
  "linecard_port_lane ''192.168.42.240/1/21_3'' = Inr (''1'', ''21'', Some 3) \<and>
   padded_value (Some l) v =
     (if l = 0 then Inr v
      else if l < - (2 ^ 63) \<or> 2 ^ 63 \<le> l then Inl OverflowError
      else Inl TypeError) \<and>
   set_attribute_value s ''192.168.42.240/1/21_3'' ''speed'' ''10000'' = ([], Inl TypeError) \<and>
   fst (set_attribute_value s ''192.168.42.240/1/21'' ''speed'' ''10000'')
     = [PUT ''linecards/1/ports/21'' (SpeedBody ''10000'')]"
proof -
  have a: "linecard_port_lane ''192.168.42.240/1/21_3'' = Inr (''1'', ''21'', Some 3)"
    by code_simp
  have b: "padded_value (Some l) v =
     (if l = 0 then Inr v
      else if l < - (2 ^ 63) \<or> 2 ^ 63 \<le> l then Inl OverflowError
      else Inl TypeError)"
    by (simp add: padded_value_def py_str_mul_def py_str_sub_int_def)
  have c: "set_attribute_value s ''192.168.42.240/1/21_3'' ''speed'' ''10000'' = ([], Inl TypeError)"
    by (simp add: set_attribute_value_def a padded_value_def py_str_mul_def py_str_sub_int_def)
  have d: "fst (set_attribute_value s ''192.168.42.240/1/21'' ''speed'' ''10000'')
     = [PUT ''linecards/1/ports/21'' (SpeedBody ''10000'')]"
    by (simp add: set_attribute_value_def lpl_21 padded_value_def returns_nothing_put)
  show ?thesis by (intro conjI a b c d)
qed

end
